theory Spec2Isabelle
  imports Main "HOL-Library.Word"
begin

section \<open>Strings of the program\<close>

text \<open>
  The program is JavaScript: a string is a sequence of UTF-16 code units. The
  operations on strings that the program relies on (\<^verbatim>\<open>trim\<close>, the regular
  expression of the file names, \<^verbatim>\<open>parseInt\<close>, \<^verbatim>\<open>endsWith\<close>) work on code
  units, so a string is a list of 16-bit words. \<open>js\<close> turns an ASCII literal
  into such a string.
\<close>

type_synonym code_unit = "16 word"
type_synonym jsstring = "code_unit list"

definition js :: "string \<Rightarrow> jsstring" where
  "js s = map of_char s"

text \<open>
  \<^verbatim>\<open>String.prototype.trim\<close> removes WhiteSpace and LineTerminator code points
  from both ends: TAB, LF, VT, FF, CR, SPACE, NBSP, U+1680, U+2000 to U+200A,
  U+2028, U+2029, U+202F, U+205F, U+3000 and U+FEFF. All of them are single
  code units.
\<close>

definition isWhiteSpace :: "code_unit \<Rightarrow> bool" where
  "isWhiteSpace c \<longleftrightarrow>
     c \<in> set [0x09, 0x0A, 0x0B, 0x0C, 0x0D, 0x20, 0xA0, 0x1680,
              0x2028, 0x2029, 0x202F, 0x205F, 0x3000, 0xFEFF]
     \<or> (0x2000 \<le> c \<and> c \<le> 0x200A)"

definition trimStart :: "jsstring \<Rightarrow> jsstring" where
  "trimStart s = dropWhile isWhiteSpace s"

definition trim :: "jsstring \<Rightarrow> jsstring" where
  "trim s = rev (trimStart (rev (trimStart s)))"

text \<open>
  The character class of \<^verbatim>\<open>/[\\/:"*?<>|]+/g\<close>: backslash, slash, colon, double
  quote, asterisk, question mark, less-than, greater-than and vertical bar.
\<close>

definition unsafe_char :: "code_unit \<Rightarrow> bool" where
  "unsafe_char c \<longleftrightarrow> c \<in> set [0x5C, 0x2F, 0x3A, 0x22, 0x2A, 0x3F, 0x3C, 0x3E, 0x7C]"

text \<open>
  \<^verbatim>\<open>s.replace(/[\\/:"*?<>|]+/g, '')\<close>: scanning from the left, every maximal
  run of characters of the class is one match and is replaced by the empty
  string; every other character is kept.
\<close>

function replace_unsafe :: "jsstring \<Rightarrow> jsstring" where
  "replace_unsafe [] = []"
| "replace_unsafe (c # cs) =
     (if unsafe_char c then replace_unsafe (dropWhile unsafe_char cs)
      else c # replace_unsafe cs)"
  by pat_completeness auto
termination
  by (relation "measure length") (auto simp: length_dropWhile_le less_Suc_eq_le)

text \<open>The sanitization both scrapers apply to a constructed file name
  (\<^verbatim>\<open>filename.replace(/[\\/:"*?<>|]+/g, '').trim()\<close>).\<close>

definition sanitize_filename :: "jsstring \<Rightarrow> jsstring" where
  "sanitize_filename filename = trim (replace_unsafe filename)"


text \<open>
  \<^verbatim>\<open>parseInt(s, 10)\<close>: leading white space is skipped, one sign is
  accepted, and the longest prefix of decimal digits is read; with no digit
  the result is NaN, here \<open>None\<close>. The result is the exact integer: the
  program only compares it with 2009, and rounding to a double is monotone
  and leaves 2009 unchanged, so that every comparison below has the value it
  has in the program.
\<close>

definition isDigit :: "code_unit \<Rightarrow> bool" where
  "isDigit c \<longleftrightarrow> 0x30 \<le> c \<and> c \<le> 0x39"

definition digits_value :: "jsstring \<Rightarrow> int" where
  "digits_value z = foldl (\<lambda>acc c. 10 * acc + (uint c - 48)) 0 z"

definition parseInt10 :: "jsstring \<Rightarrow> int option" where
  "parseInt10 s =
     (let t = trimStart s;
          negative = (t \<noteq> [] \<and> hd t = 0x2D);
          u = (if t \<noteq> [] \<and> (hd t = 0x2B \<or> hd t = 0x2D) then tl t else t);
          z = takeWhile isDigit u
      in if z = [] then None
         else Some ((if negative then - 1 else 1) * digits_value z))"

text \<open>\<^verbatim>\<open>isNaN(parseInt(year, 10)) || parseInt(year, 10) < 2009\<close>, the test of
  the primary scraper under which a row is skipped.\<close>

definition year_before_2009 :: "jsstring \<Rightarrow> bool" where
  "year_before_2009 year =
     (case parseInt10 year of None \<Rightarrow> True | Some n \<Rightarrow> n < 2009)"

text \<open>\<^verbatim>\<open>!isNaN(parseInt(year, 10)) && parseInt(year, 10) >= 2009\<close>, the test of
  the fallback scraper under which a row is kept.\<close>

definition year_from_2009 :: "jsstring \<Rightarrow> bool" where
  "year_from_2009 year =
     (case parseInt10 year of None \<Rightarrow> False | Some n \<Rightarrow> 2009 \<le> n)"

definition startsWith :: "jsstring \<Rightarrow> jsstring \<Rightarrow> bool" where
  "startsWith s p \<longleftrightarrow> take (length p) s = p"

definition endsWith :: "jsstring \<Rightarrow> jsstring \<Rightarrow> bool" where
  "endsWith s p \<longleftrightarrow> length p \<le> length s \<and> drop (length s - length p) s = p"

text \<open>
  \<^verbatim>\<open>toLowerCase\<close> on the letters A to Z. The program uses it only to test
  for the suffixes \<^verbatim>\<open>.pdf\<close> and \<^verbatim>\<open>.zip\<close>; no code point outside A to Z has a
  lower-case form that ends in one of the letters of these suffixes, so the
  tests have the value they have in the program.
\<close>

definition toLowerCase :: "jsstring \<Rightarrow> jsstring" where
  "toLowerCase s = map (\<lambda>c. if 0x41 \<le> c \<and> c \<le> 0x5A then c + 0x20 else c) s"

text \<open>Decimal digits of a number, as a template literal prints it.\<close>

fun show_nat :: "nat \<Rightarrow> jsstring" where
  "show_nat n = (if n < 10 then [of_nat (48 + n)]
                 else show_nat (n div 10) @ [of_nat (48 + n mod 10)])"

declare show_nat.simps [simp del]


section \<open>Exceptions\<close>

text \<open>
  A thrown value is an \<^verbatim>\<open>Error\<close> object with a name and a message. A
  function that can throw, or an \<^verbatim>\<open>async\<close> function whose promise can
  reject, returns \<open>Inl\<close> of the error or \<open>Inr\<close> of its value, together with
  the state it leaves behind: what was done before a throw stays done.
  Every awaited operation is taken to settle.
\<close>

datatype js_error = JsError (err_name: jsstring) (err_message: jsstring)

text \<open>\<^verbatim>\<open>err.message || err\<close> inside a template literal: the message, or for an
  empty message the error printed by \<^verbatim>\<open>Error.prototype.toString\<close>, which is
  then its name.\<close>

definition err_text :: "js_error \<Rightarrow> jsstring" where
  "err_text err = (if err_message err \<noteq> [] then err_message err else err_name err)"


section \<open>The state of a run\<close>

type_synonym byte = "8 word"

record ledger_entry =
  entry_name :: "jsstring option"
  entry_errors :: "jsstring list"

text \<open>The arguments of one call of the fetcher, with the year of the row
  it was made for (a history variable of the model).\<close>

record reference =
  ref_year :: jsstring
  ref_url :: jsstring
  ref_dest :: jsstring

record report_row =
  row_symbol :: jsstring
  row_company_name :: jsstring
  row_messages :: jsstring

text \<open>
  \<^item> \<open>companyErrors\<close>: the own properties of the global object
    \<^verbatim>\<open>companyErrors\<close>, in insertion order. A company name is a string or
    \<^verbatim>\<open>undefined\<close> (\<open>None\<close>).
  \<^item> \<open>console\<close>: the lines written by \<^verbatim>\<open>console.log\<close>, \<^verbatim>\<open>console.warn\<close>,
    \<^verbatim>\<open>console.error\<close> and the completion line of a download, in order.
  \<^item> \<open>files\<close>: the regular files of the file system and their contents.
  \<^item> \<open>open_streams\<close>: the paths of write streams created and not closed.
  \<^item> \<open>requests\<close>: the number of \<^verbatim>\<open>https.get\<close> calls made.
  \<^item> \<open>surfaced\<close>: the calls of the fetcher made by the scrapers, in order.
  \<^item> \<open>report\<close>: the rows of \<^verbatim>\<open>not_found_companies.xlsx\<close> once written.
  \<^item> \<open>normalizer_raised\<close>: the exceptions that a call of \<^verbatim>\<open>extractZipToPdf\<close> has
    raised to its caller (a history variable of the model).
\<close>

record world =
  companyErrors :: "(jsstring \<times> ledger_entry) list"
  console :: "jsstring list"
  files :: "jsstring \<rightharpoonup> byte list"
  open_streams :: "jsstring list"
  requests :: nat
  surfaced :: "reference list"
  report :: "report_row list option"
  normalizer_raised :: "js_error list"

definition initial_world :: "(jsstring \<rightharpoonup> byte list) \<Rightarrow> world" where
  "initial_world fs =
     \<lparr>companyErrors = [], console = [], files = fs, open_streams = [],
      requests = 0, surfaced = [], report = None, normalizer_raised = []\<rparr>"

type_synonym 'a result = "(js_error + 'a) \<times> world"

definition console_log :: "jsstring \<Rightarrow> world \<Rightarrow> world" where
  "console_log line w = w\<lparr>console := console w @ [line]\<rparr>"


section \<open>The Error Ledger\<close>

text \<open>
  \<^verbatim>\<open>companyErrors\<close> is created as \<^verbatim>\<open>{}\<close>, so reading a property that is not
  its own goes on to \<^verbatim>\<open>Object.prototype\<close>. The properties found there are
  functions, and \<^verbatim>\<open>__proto__\<close> gives the prototype object itself: all of
  them are truthy and none has a property \<^verbatim>\<open>errors\<close>.
\<close>

definition object_prototype_keys :: "jsstring list" where
  "object_prototype_keys =
     map js [''constructor'', ''__defineGetter__'', ''__defineSetter__'',
             ''hasOwnProperty'', ''__lookupGetter__'', ''__lookupSetter__'',
             ''isPrototypeOf'', ''propertyIsEnumerable'', ''toString'',
             ''valueOf'', ''__proto__'', ''toLocaleString'']"

datatype 'a property = Own 'a | Inherited | Undefined

definition get_property :: "(jsstring \<times> 'a) list \<Rightarrow> jsstring \<Rightarrow> 'a property" where
  "get_property obj key =
     (case map_of obj key of
        Some v \<Rightarrow> Own v
      | None \<Rightarrow> if key \<in> set object_prototype_keys then Inherited else Undefined)"

fun push_error :: "jsstring \<Rightarrow> jsstring \<Rightarrow> (jsstring \<times> ledger_entry) list
                     \<Rightarrow> (jsstring \<times> ledger_entry) list" where
  "push_error key message [] = []"
| "push_error key message ((k, e) # rest) =
     (if k = key then (k, e\<lparr>entry_errors := entry_errors e @ [message]\<rparr>) # rest
      else (k, e) # push_error key message rest)"

text \<open>
  \<^verbatim>\<open>addError\<close>: line 15 creates the entry when the property read is falsy,
  line 16 pushes the message onto the \<^verbatim>\<open>errors\<close> of the property read, which
  throws a TypeError when that property is inherited, line 17 prints.
\<close>

definition addError :: "jsstring \<Rightarrow> jsstring option \<Rightarrow> jsstring \<Rightarrow> world \<Rightarrow> unit result" where
  "addError symbol name message w =
     (let ledger1 =
            (case get_property (companyErrors w) symbol of
               Undefined \<Rightarrow>
                 companyErrors w @ [(symbol, \<lparr>entry_name = name, entry_errors = []\<rparr>)]
             | _ \<Rightarrow> companyErrors w)
      in case get_property ledger1 symbol of
           Own e \<Rightarrow>
             (Inr (), console_log message
                        (w\<lparr>companyErrors := push_error symbol message ledger1\<rparr>))
         | _ \<Rightarrow>
             (Inl (JsError (js ''TypeError'')
                     (js ''Cannot read properties of undefined (reading push)'')),
              w\<lparr>companyErrors := ledger1\<rparr>))"


section \<open>The environment of a run\<close>

text \<open>
  What the network answers to one \<^verbatim>\<open>https.get\<close>: the request fails before
  any response, or a response arrives with a status code, the chunks of body
  received, and the error that ends the body early, if any.
\<close>

datatype net_outcome =
    RequestError js_error
  | Response nat "byte list list" "js_error option"

record zip_entry =
  entryName :: jsstring
  getData :: "js_error + byte list"

datatype fs_op = OpWrite | OpUnlink | OpRename

text \<open>One cell of the results table of the primary source: its text and the
  \<^verbatim>\<open>href\<close> of its first anchor, if it has one.\<close>

record bse_cell =
  innerText :: jsstring
  anchor_href :: "jsstring option"

text \<open>
  What the browser does during one visit of the primary source:
  \<^item> \<open>bse_landing\<close>: the error thrown by lines 93 to 114 (navigation, search,
    submission, wait for the table, creation of the folder), if any;
  \<^item> \<open>bse_rows1\<close>, \<open>bse_rows2\<close>: the rows of the table on the first and on the
    second page, header included; the query for the rows may throw, and so
    may the query for the cells of one row;
  \<^item> \<open>bse_next\<close>: whether a link to page 2 exists;
  \<^item> \<open>bse_landing2\<close>: the error thrown by lines 151 to 155, if any.
\<close>

record bse_session =
  bse_landing :: "js_error option"
  bse_rows1 :: "js_error + (js_error + bse_cell list) list"
  bse_next :: "js_error + bool"
  bse_landing2 :: "js_error option"
  bse_rows2 :: "js_error + (js_error + bse_cell list) list"

text \<open>One row of the annual-reports table of the fallback source: the text
  content of its year cell and the \<^verbatim>\<open>href\<close> of the anchor in its fourth
  cell, each \<open>None\<close> when the element is missing.\<close>

record nse_row =
  toYr_textContent :: "jsstring option"
  nse_anchor_href :: "jsstring option"

text \<open>
  What the browser does during one visit of the fallback source:
  \<^item> \<open>nse_newPage\<close>: the error thrown by lines 167 and 168, if any;
  \<^item> \<open>nse_landing\<close>: the error thrown by lines 171 to 184, if any;
  \<^item> \<open>nse_table\<close>: the rows handed to the callback of \<^verbatim>\<open>$$eval\<close>, or its error;
  \<^item> \<open>nse_close\<close>: the error thrown by \<^verbatim>\<open>page.close()\<close>, if any.
\<close>

record nse_session =
  nse_newPage :: "js_error option"
  nse_landing :: "js_error option"
  nse_table :: "js_error + nse_row list"
  nse_close :: "js_error option"

text \<open>
  Everything outside the program, taken as a parameter:
  \<^item> \<open>net n url\<close>: the answer to the \<open>n\<close>-th request of the run, made to \<open>url\<close>;
  \<^item> \<open>unzip bytes\<close>: the entries \<^verbatim>\<open>AdmZip\<close> finds in a file of that content,
    or the error its constructor throws;
  \<^item> \<open>fs_fault op path\<close>: the error of the operating system for a write, a
    removal or a renaming at \<open>path\<close>, if any;
  \<^item> \<open>path_join\<close>: \<^verbatim>\<open>path.join\<close>; \<open>dirname\<close>: \<^verbatim>\<open>__dirname\<close>;
  \<^item> \<open>bse_site i\<close>, \<open>nse_site i\<close>: the two sources as visited for row \<open>i\<close> of
    the worklist;
  \<^item> \<open>xlsx_fault\<close>: the error thrown while the workbook of failures is built
    and written, if any.
  Opening the destination of a download is taken to succeed (both scrapers
  create its folder first).
\<close>

record env =
  net :: "nat \<Rightarrow> jsstring \<Rightarrow> net_outcome"
  unzip :: "byte list \<Rightarrow> js_error + zip_entry list"
  fs_fault :: "fs_op \<Rightarrow> jsstring \<Rightarrow> js_error option"
  path_join :: "jsstring \<Rightarrow> jsstring \<Rightarrow> jsstring"
  dirname :: jsstring
  bse_site :: "nat \<Rightarrow> bse_session"
  nse_site :: "nat \<Rightarrow> nse_session"
  xlsx_fault :: "js_error option"


section \<open>The Fetcher\<close>

text \<open>\<^verbatim>\<open>fs.createWriteStream(dest)\<close> opens \<open>dest\<close> for writing, which creates
  the file or empties the one that is there.\<close>

definition createWriteStream :: "jsstring \<Rightarrow> world \<Rightarrow> world" where
  "createWriteStream dest w =
     w\<lparr>files := (files w)(dest \<mapsto> []), open_streams := open_streams w @ [dest]\<rparr>"

text \<open>
  \<^verbatim>\<open>downloadFileWithSpeed\<close>: the stream is created first (line 22), then the
  request is made. A request error rejects (line 57); a status other than
  200 rejects (line 28); otherwise the body is piped into the file, an error
  of the response rejects (line 52), and the end of the body closes the
  stream and resolves (line 47). The speed display is advisory and left out.
\<close>

definition downloadFileWithSpeed :: "env \<Rightarrow> jsstring \<Rightarrow> jsstring \<Rightarrow> world \<Rightarrow> unit result" where
  "downloadFileWithSpeed env url dest w0 =
     (let w1 = createWriteStream dest w0;
          w2 = w1\<lparr>requests := Suc (requests w1)\<rparr>
      in case net env (requests w0) url of
           RequestError err \<Rightarrow> (Inl err, w2)
         | Response statusCode chunks failure \<Rightarrow>
             if statusCode \<noteq> 200 then
               (Inl (JsError (js ''Error'')
                      (js ''Failed to download '' @ [0x27] @ url @ [0x27]
                         @ js '' (Status '' @ show_nat statusCode @ js '')'')),
                w2)
             else
               let w3 = w2\<lparr>files := (files w2)(dest \<mapsto> concat chunks)\<rparr>
               in (case failure of
                     Some err \<Rightarrow> (Inl err, w3)
                   | None \<Rightarrow>
                       (Inr (), console_log (js ''Download complete!'')
                                  (w3\<lparr>open_streams := remove1 dest (open_streams w3)\<rparr>))))"


section \<open>The Archive Normalizer\<close>

text \<open>The synchronous file operations the program calls. Each throws when
  the operating system refuses; \<^verbatim>\<open>statSync\<close>, \<^verbatim>\<open>unlinkSync\<close> and
  \<^verbatim>\<open>renameSync\<close> throw when the file is not there.\<close>

definition enoent :: "jsstring \<Rightarrow> js_error" where
  "enoent path = JsError (js ''Error'') (js ''ENOENT: no such file or directory, '' @ path)"

definition statSync_size :: "jsstring \<Rightarrow> world \<Rightarrow> js_error + nat" where
  "statSync_size path w =
     (case files w path of None \<Rightarrow> Inl (enoent path) | Some bytes \<Rightarrow> Inr (length bytes))"

definition writeFileSync :: "env \<Rightarrow> jsstring \<Rightarrow> byte list \<Rightarrow> world \<Rightarrow> unit result" where
  "writeFileSync env path data w =
     (case fs_fault env OpWrite path of
        Some err \<Rightarrow> (Inl err, w)
      | None \<Rightarrow> (Inr (), w\<lparr>files := (files w)(path \<mapsto> data)\<rparr>))"

definition unlinkSync :: "env \<Rightarrow> jsstring \<Rightarrow> world \<Rightarrow> unit result" where
  "unlinkSync env path w =
     (case fs_fault env OpUnlink path of
        Some err \<Rightarrow> (Inl err, w)
      | None \<Rightarrow>
          (case files w path of
             None \<Rightarrow> (Inl (enoent path), w)
           | Some bytes \<Rightarrow> (Inr (), w\<lparr>files := (files w)(path := None)\<rparr>)))"

definition renameSync :: "env \<Rightarrow> jsstring \<Rightarrow> jsstring \<Rightarrow> world \<Rightarrow> unit result" where
  "renameSync env oldPath newPath w =
     (case fs_fault env OpRename oldPath of
        Some err \<Rightarrow> (Inl err, w)
      | None \<Rightarrow>
          (case files w oldPath of
             None \<Rightarrow> (Inl (enoent oldPath), w)
           | Some bytes \<Rightarrow>
               (Inr (), w\<lparr>files := ((files w)(oldPath := None))(newPath \<mapsto> bytes)\<rparr>)))"

text \<open>\<^verbatim>\<open>new AdmZip(zipFilePath).getEntries()\<close>: the archive is read from the
  file and parsed; the constructor throws when it cannot.\<close>

definition AdmZip_getEntries :: "env \<Rightarrow> jsstring \<Rightarrow> world \<Rightarrow> js_error + zip_entry list" where
  "AdmZip_getEntries env path w =
     (case files w path of
        None \<Rightarrow> Inl (JsError (js ''Error'') (js ''ADM-ZIP: Invalid filename''))
      | Some bytes \<Rightarrow> unzip env bytes)"

text \<open>The loop of lines 72 to 80 over the entries of the archive; the flag
  is \<^verbatim>\<open>extracted\<close>.\<close>

fun extract_entries ::
  "env \<Rightarrow> jsstring \<Rightarrow> jsstring \<Rightarrow> jsstring \<Rightarrow> zip_entry list \<Rightarrow> bool \<Rightarrow> world \<Rightarrow> bool result"
where
  "extract_entries env folderPath symbol year [] extracted w = (Inr extracted, w)"
| "extract_entries env folderPath symbol year (entry # entries) extracted w =
     (if endsWith (toLowerCase (entryName entry)) (js ''.pdf'') then
        (let newPdfName = symbol @ js ''_'' @ year @ js ''.pdf'';
             outputFilePath = path_join env folderPath newPdfName
         in case getData entry of
              Inl err \<Rightarrow> (Inl err, w)
            | Inr data \<Rightarrow>
                (case writeFileSync env outputFilePath data w of
                   (Inl err, w1) \<Rightarrow> (Inl err, w1)
                 | (Inr u, w1) \<Rightarrow>
                     extract_entries env folderPath symbol year entries True
                       (console_log (js ''Extracted PDF from ZIP and renamed: '' @ outputFilePath) w1)))
      else extract_entries env folderPath symbol year entries extracted w)"

text \<open>The \<^verbatim>\<open>try\<close> block of \<^verbatim>\<open>extractZipToPdf\<close> (lines 64 to 83).\<close>

definition extractZipToPdf_try ::
  "env \<Rightarrow> jsstring \<Rightarrow> jsstring \<Rightarrow> jsstring \<Rightarrow> jsstring \<Rightarrow> world \<Rightarrow> unit result"
where
  "extractZipToPdf_try env zipFilePath folderPath symbol year w =
     (case statSync_size zipFilePath w of
        Inl err \<Rightarrow> (Inl err, w)
      | Inr stats_size \<Rightarrow>
          if stats_size < 1024 then
            (Inr (), console_log (js ''ZIP file too small ('' @ show_nat stats_size
                        @ js '' bytes), skipping extraction: '' @ zipFilePath) w)
          else
            (case AdmZip_getEntries env zipFilePath w of
               Inl err \<Rightarrow> (Inl err, w)
             | Inr entries \<Rightarrow>
                 (case extract_entries env folderPath symbol year entries False w of
                    (Inl err, w1) \<Rightarrow> (Inl err, w1)
                  | (Inr extracted, w1) \<Rightarrow>
                      unlinkSync env zipFilePath
                        (if \<not> extracted
                         then console_log (js ''No PDF found inside ZIP: '' @ zipFilePath) w1
                         else w1))))"

text \<open>\<^verbatim>\<open>extractZipToPdf\<close>: what the \<^verbatim>\<open>try\<close> block throws is handed to
  \<^verbatim>\<open>addError\<close> (line 85), with the empty string as the company name.\<close>

definition extractZipToPdf ::
  "env \<Rightarrow> jsstring \<Rightarrow> jsstring \<Rightarrow> jsstring \<Rightarrow> jsstring \<Rightarrow> world \<Rightarrow> unit result"
where
  "extractZipToPdf env zipFilePath folderPath symbol year w =
     (case extractZipToPdf_try env zipFilePath folderPath symbol year w of
        (Inl err, w1) \<Rightarrow>
          addError symbol (Some [])
            (js ''Error extracting ZIP file '' @ zipFilePath @ js '': '' @ err_text err) w1
      | (Inr u, w1) \<Rightarrow> (Inr (), w1))"


section \<open>The primary source\<close>

record company =
  company_symbol :: jsstring
  company_name :: "jsstring option"

text \<open>A company name inside a template literal.\<close>

definition show_name :: "jsstring option \<Rightarrow> jsstring" where
  "show_name name = (case name of None \<Rightarrow> js ''undefined'' | Some n \<Rightarrow> n)"

text \<open>Records a call of the fetcher that is about to be made.\<close>

definition surface :: "jsstring \<Rightarrow> jsstring \<Rightarrow> jsstring \<Rightarrow> world \<Rightarrow> world" where
  "surface year url dest w =
     w\<lparr>surfaced := surfaced w @ [\<lparr>ref_year = year, ref_url = url, ref_dest = dest\<rparr>]\<rparr>"

text \<open>The \<^verbatim>\<open>catch\<close> of line 140.\<close>

definition bse_download_catch ::
  "company \<Rightarrow> jsstring \<Rightarrow> bool \<Rightarrow> js_error \<Rightarrow> world \<Rightarrow> bool result"
where
  "bse_download_catch company filename downloadedAny err w =
     (case addError (company_symbol company) (company_name company)
             (js ''Failed to download BSE report '' @ filename @ js '': '' @ err_text err) w of
        (Inl e, w1) \<Rightarrow> (Inl e, w1)
      | (Inr u, w1) \<Rightarrow> (Inr downloadedAny, w1))"

text \<open>Lines 136 to 142: the download of one report; the value is the new
  \<^verbatim>\<open>downloadedAny\<close>.\<close>

definition bse_download ::
  "env \<Rightarrow> company \<Rightarrow> jsstring \<Rightarrow> jsstring \<Rightarrow> jsstring \<Rightarrow> jsstring \<Rightarrow> bool \<Rightarrow> world \<Rightarrow> bool result"
where
  "bse_download env company year url filename filepath downloadedAny w =
     (case addError (company_symbol company) (company_name company)
             (js ''Downloading BSE report: '' @ filename @ js ''...'') w of
        (Inl err, w1) \<Rightarrow> bse_download_catch company filename downloadedAny err w1
      | (Inr u, w1) \<Rightarrow>
          (case downloadFileWithSpeed env url filepath (surface year url filepath w1) of
             (Inl err, w2) \<Rightarrow> bse_download_catch company filename downloadedAny err w2
           | (Inr u, w2) \<Rightarrow> (Inr True, w2)))"

text \<open>
  Lines 121 to 142: the body of the loop over the rows. An error of the
  browser while the row is read (\<open>Inl\<close>) changes nothing before it is thrown.
\<close>

definition bse_row ::
  "env \<Rightarrow> company \<Rightarrow> jsstring \<Rightarrow> js_error + bse_cell list \<Rightarrow> bool \<Rightarrow> world \<Rightarrow> bool result"
where
  "bse_row env company folder row downloadedAny w =
     (case row of
        Inl err \<Rightarrow> (Inl err, w)
      | Inr cells \<Rightarrow>
          if length cells < 2 then (Inr downloadedAny, w)
          else
            let year = trim (innerText (cells ! 0))
            in if year_before_2009 year then (Inr downloadedAny, w)
               else
                 (case anchor_href (cells ! 1) of
                    None \<Rightarrow> (Inr downloadedAny, w)
                  | Some url \<Rightarrow>
                      if \<not> startsWith url (js ''https://'') then (Inr downloadedAny, w)
                      else
                        let filename = sanitize_filename
                                         (company_symbol company @ js ''_'' @ year @ js ''.pdf'');
                            filepath = path_join env folder filename
                        in bse_download env company year url filename filepath downloadedAny w))"

fun bse_rows ::
  "env \<Rightarrow> company \<Rightarrow> jsstring \<Rightarrow> (js_error + bse_cell list) list \<Rightarrow> bool \<Rightarrow> world \<Rightarrow> bool result"
where
  "bse_rows env company folder [] downloadedAny w = (Inr downloadedAny, w)"
| "bse_rows env company folder (row # rows) downloadedAny w =
     (case bse_row env company folder row downloadedAny w of
        (Inl err, w1) \<Rightarrow> (Inl err, w1)
      | (Inr d, w1) \<Rightarrow> bse_rows env company folder rows d w1)"

text \<open>\<^verbatim>\<open>extractAndDownloadReports\<close>: the rows are queried, and the loop starts
  at index 1, after the header.\<close>

definition extractAndDownloadReports ::
  "env \<Rightarrow> company \<Rightarrow> jsstring \<Rightarrow> js_error + (js_error + bse_cell list) list
     \<Rightarrow> bool \<Rightarrow> world \<Rightarrow> bool result"
where
  "extractAndDownloadReports env company folder table downloadedAny w =
     (case table of
        Inl err \<Rightarrow> (Inl err, w)
      | Inr rows \<Rightarrow> bse_rows env company folder (drop 1 rows) downloadedAny w)"

text \<open>The \<^verbatim>\<open>try\<close> block of \<^verbatim>\<open>scrapeBseReports\<close> (lines 92 to 159).\<close>

definition scrapeBseReports_try :: "env \<Rightarrow> bse_session \<Rightarrow> company \<Rightarrow> world \<Rightarrow> bool result" where
  "scrapeBseReports_try env session company w =
     (case bse_landing session of
        Some err \<Rightarrow> (Inl err, w)
      | None \<Rightarrow>
          let folder = path_join env (path_join env (dirname env) (js ''BSE_AnnualReports''))
                         (company_symbol company)
          in (case extractAndDownloadReports env company folder (bse_rows1 session) False w of
                (Inl err, w1) \<Rightarrow> (Inl err, w1)
              | (Inr d1, w1) \<Rightarrow>
                  (case bse_next session of
                     Inl err \<Rightarrow> (Inl err, w1)
                   | Inr nextPageLink \<Rightarrow>
                       if nextPageLink then
                         (case bse_landing2 session of
                            Some err \<Rightarrow> (Inl err, w1)
                          | None \<Rightarrow>
                              extractAndDownloadReports env company folder (bse_rows2 session) d1 w1)
                       else (Inr d1, w1))))"

text \<open>\<^verbatim>\<open>scrapeBseReports\<close>: the status message of line 90 comes before the
  \<^verbatim>\<open>try\<close>; the \<^verbatim>\<open>catch\<close> of line 160 records the error and returns false.\<close>

definition scrapeBseReports :: "env \<Rightarrow> bse_session \<Rightarrow> company \<Rightarrow> world \<Rightarrow> bool result" where
  "scrapeBseReports env session company w =
     (case addError (company_symbol company) (company_name company)
             (js ''Trying BSE reports for '' @ show_name (company_name company)
                @ js '' ('' @ company_symbol company @ js '')'') w of
        (Inl err, w1) \<Rightarrow> (Inl err, w1)
      | (Inr u, w1) \<Rightarrow>
          (case scrapeBseReports_try env session company w1 of
             (Inr downloadedAny, w2) \<Rightarrow> (Inr downloadedAny, w2)
           | (Inl err, w2) \<Rightarrow>
               (case addError (company_symbol company) (company_name company)
                       (js ''BSE scraping failed for '' @ company_symbol company
                          @ js '': '' @ err_text err) w2 of
                  (Inl e, w3) \<Rightarrow> (Inl e, w3)
                | (Inr u, w3) \<Rightarrow> (Inr False, w3))))"


section \<open>The fallback source\<close>

datatype report_type = Zip | Pdf

definition type_text :: "report_type \<Rightarrow> jsstring" where
  "type_text t = (case t of Zip \<Rightarrow> js ''zip'' | Pdf \<Rightarrow> js ''pdf'')"

record nse_report =
  report_year :: jsstring
  report_url :: jsstring
  report_type :: report_type

text \<open>
  Lines 188 to 207, the callback of \<^verbatim>\<open>$$eval\<close> for one row: the record
  \<^verbatim>\<open>{year, url, type}\<close> is built, and kept only if the url, the year and the
  type are truthy and the year parses to a number that is at least 2009.
  \<open>None\<close> is a row the filter drops.
\<close>

definition nse_report_of :: "nse_row \<Rightarrow> nse_report option" where
  "nse_report_of row =
     (let year = map_option trim (toYr_textContent row);
          url = nse_anchor_href row;
          type = (case url of
                    None \<Rightarrow> None
                  | Some href \<Rightarrow>
                      if href = [] then None
                      else if endsWith (toLowerCase href) (js ''.zip'') then Some Zip
                      else if endsWith (toLowerCase href) (js ''.pdf'') then Some Pdf
                      else None)
      in case (url, year, type) of
           (Some href, Some y, Some t) \<Rightarrow>
             if href \<noteq> [] \<and> y \<noteq> [] \<and> year_from_2009 y
             then Some \<lparr>report_year = y, report_url = href, report_type = t\<rparr>
             else None
         | _ \<Rightarrow> None)"

text \<open>The \<^verbatim>\<open>try\<close> block of lines 222 to 232, after the line printed. Line 226
  is the only call of \<^verbatim>\<open>extractZipToPdf\<close>; an exception that reaches it from
  there is noted in \<open>normalizer_raised\<close>.\<close>

definition nse_download_try ::
  "env \<Rightarrow> jsstring \<Rightarrow> jsstring \<Rightarrow> nse_report \<Rightarrow> jsstring \<Rightarrow> jsstring \<Rightarrow> world \<Rightarrow> unit result"
where
  "nse_download_try env symbol folder rep filename destPath w =
     (let toYear = report_year rep
      in case downloadFileWithSpeed env (report_url rep) destPath
                (surface toYear (report_url rep) destPath w) of
           (Inl err, w1) \<Rightarrow> (Inl err, w1)
         | (Inr u, w1) \<Rightarrow>
             (case (if report_type rep = Zip
                    then extractZipToPdf env destPath folder symbol toYear w1
                    else (Inr (), w1)) of
                (Inl err, w2) \<Rightarrow>
                  (Inl err, w2\<lparr>normalizer_raised := normalizer_raised w2 @ [err]\<rparr>)
              | (Inr u, w2) \<Rightarrow>
                  if report_type rep = Pdf then
                    (let newPdfName = symbol @ js ''_'' @ toYear @ js ''.pdf'';
                         newPdfPath = path_join env folder newPdfName
                     in if filename \<noteq> newPdfName then renameSync env destPath newPdfPath w2
                        else (Inr (), w2))
                  else (Inr (), w2)))"

text \<open>Lines 216 to 235: the body of the loop over the reports.\<close>

definition nse_download ::
  "env \<Rightarrow> jsstring \<Rightarrow> jsstring option \<Rightarrow> jsstring \<Rightarrow> nse_report \<Rightarrow> world \<Rightarrow> unit result"
where
  "nse_download env symbol companyName folder rep w =
     (let filename = sanitize_filename
                       (symbol @ js ''_'' @ report_year rep @ js ''.'' @ type_text (report_type rep));
          destPath = path_join env folder filename;
          w0 = console_log (js ''Downloading NSE report: '' @ filename @ js ''...'') w
      in case nse_download_try env symbol folder rep filename destPath w0 of
           (Inl e, w1) \<Rightarrow>
             addError symbol companyName
               (js ''Error downloading/extracting NSE report '' @ filename @ js '': '' @ err_text e) w1
         | (Inr u, w1) \<Rightarrow> (Inr (), w1))"

fun nse_reports ::
  "env \<Rightarrow> jsstring \<Rightarrow> jsstring option \<Rightarrow> jsstring \<Rightarrow> nse_report list \<Rightarrow> world \<Rightarrow> unit result"
where
  "nse_reports env symbol companyName folder [] w = (Inr (), w)"
| "nse_reports env symbol companyName folder (rep # reps) w =
     (case nse_download env symbol companyName folder rep w of
        (Inl err, w1) \<Rightarrow> (Inl err, w1)
      | (Inr u, w1) \<Rightarrow> nse_reports env symbol companyName folder reps w1)"

text \<open>The \<^verbatim>\<open>try\<close> block of \<^verbatim>\<open>scrapeNseAnnualReports\<close> (lines 171 to 239).\<close>

definition scrapeNseAnnualReports_try ::
  "env \<Rightarrow> nse_session \<Rightarrow> jsstring \<Rightarrow> jsstring option \<Rightarrow> world \<Rightarrow> bool result"
where
  "scrapeNseAnnualReports_try env session symbol companyName w =
     (case nse_landing session of
        Some err \<Rightarrow> (Inl err, w)
      | None \<Rightarrow>
          let folder = path_join env (path_join env (dirname env) (js ''NSE_AnnualReports'')) symbol
          in (case nse_table session of
                Inl err \<Rightarrow> (Inl err, w)
              | Inr rows \<Rightarrow>
                  let reportRows = List.map_filter nse_report_of rows
                  in if length reportRows = 0 then
                       (case nse_close session of
                          Some err \<Rightarrow> (Inl err, w)
                        | None \<Rightarrow> (Inr False, w))
                     else
                       (case nse_reports env symbol companyName folder reportRows w of
                          (Inl err, w1) \<Rightarrow> (Inl err, w1)
                        | (Inr u, w1) \<Rightarrow>
                            (case nse_close session of
                               Some err \<Rightarrow> (Inl err, w1)
                             | None \<Rightarrow> (Inr True, w1)))))"

text \<open>
  \<^verbatim>\<open>scrapeNseAnnualReports\<close>: the page is opened outside the \<^verbatim>\<open>try\<close>; the
  \<^verbatim>\<open>catch\<close> of line 240 records the error, closes the page and returns false.
  The screenshot of line 243 is best effort and its file is not tracked.
\<close>

definition scrapeNseAnnualReports ::
  "env \<Rightarrow> nse_session \<Rightarrow> jsstring \<Rightarrow> jsstring option \<Rightarrow> world \<Rightarrow> bool result"
where
  "scrapeNseAnnualReports env session symbol companyName w =
     (case nse_newPage session of
        Some err \<Rightarrow> (Inl err, w)
      | None \<Rightarrow>
          (case scrapeNseAnnualReports_try env session symbol companyName w of
             (Inr found, w1) \<Rightarrow> (Inr found, w1)
           | (Inl err, w1) \<Rightarrow>
               (case addError symbol companyName
                       (js ''NSE scraping failed for '' @ symbol @ js '': '' @ err_text err) w1 of
                  (Inl e, w2) \<Rightarrow> (Inl e, w2)
                | (Inr u, w2) \<Rightarrow>
                    (case nse_close session of
                       Some e \<Rightarrow> (Inl e, w2)
                     | None \<Rightarrow> (Inr False, w2)))))"


section \<open>The orchestrator\<close>

text \<open>
  One row of the worklist: \<open>cell_symbol\<close> is \<^verbatim>\<open>String(row[symbolKey])\<close>, or
  \<open>None\<close> when the cell is missing or falsy; \<open>cell_company\<close> is
  \<^verbatim>\<open>row[companyKey]\<close>. The sheet says whether the two columns were found.
\<close>

record sheet_row =
  cell_symbol :: "jsstring option"
  cell_company :: "jsstring option"

record sheet =
  symbolKey_found :: bool
  companyKey_found :: bool
  sheet_rows :: "sheet_row list"

text \<open>Lines 281 to 287.\<close>

definition scrape_company :: "env \<Rightarrow> nat \<Rightarrow> jsstring \<Rightarrow> jsstring option \<Rightarrow> world \<Rightarrow> unit result" where
  "scrape_company env i symbol companyName w =
     (case scrapeBseReports env (bse_site env i)
             \<lparr>company_symbol = symbol, company_name = companyName\<rparr> w of
        (Inl err, w1) \<Rightarrow> (Inl err, w1)
      | (Inr bseSuccess, w1) \<Rightarrow>
          if \<not> bseSuccess then
            (case scrapeNseAnnualReports env (nse_site env i) symbol companyName w1 of
               (Inl err, w2) \<Rightarrow> (Inl err, w2)
             | (Inr nseSuccess, w2) \<Rightarrow>
                 if \<not> nseSuccess then
                   addError symbol companyName
                     (js ''No reports found on BSE or NSE for '' @ symbol) w2
                 else (Inr (), w2))
          else (Inr (), w1))"

text \<open>Lines 280 to 290: the \<^verbatim>\<open>try\<close> of one iteration and its \<^verbatim>\<open>catch\<close>.\<close>

definition process_company :: "env \<Rightarrow> nat \<Rightarrow> jsstring \<Rightarrow> jsstring option \<Rightarrow> world \<Rightarrow> unit result" where
  "process_company env i symbol companyName w =
     (case scrape_company env i symbol companyName w of
        (Inl err, w1) \<Rightarrow>
          addError symbol companyName
            (js ''Error processing '' @ symbol @ js '': '' @ err_text err) w1
      | (Inr u, w1) \<Rightarrow> (Inr (), w1))"

text \<open>Line 275: the symbol of a row, empty when the row is skipped.\<close>

definition row_symbol_of :: "sheet_row \<Rightarrow> jsstring" where
  "row_symbol_of row = (case cell_symbol row of None \<Rightarrow> [] | Some s \<Rightarrow> trim s)"

text \<open>The loop of lines 274 to 291; \<open>i\<close> is the index of the first row of the
  list in the worklist. What an iteration throws ends the loop.\<close>

fun process_rows :: "env \<Rightarrow> bool \<Rightarrow> nat \<Rightarrow> sheet_row list \<Rightarrow> world \<Rightarrow> unit result" where
  "process_rows env companyKey i [] w = (Inr (), w)"
| "process_rows env companyKey i (row # rows) w =
     (let symbol = row_symbol_of row
      in if symbol = [] then process_rows env companyKey (Suc i) rows w
         else
           let companyName = (if companyKey then cell_company row else Some [])
           in case process_company env i symbol companyName w of
                (Inl err, w1) \<Rightarrow> (Inl err, w1)
              | (Inr u, w1) \<Rightarrow> process_rows env companyKey (Suc i) rows w1)"

text \<open>
  \<^verbatim>\<open>Object.entries\<close>: the keys that are array indices (canonical decimal
  numbers below \<open>2^32 - 1\<close>) come first in ascending order, the other keys
  follow in insertion order.
\<close>

definition array_index :: "jsstring \<Rightarrow> nat option" where
  "array_index key =
     (if key \<noteq> [] \<and> list_all isDigit key \<and> (hd key \<noteq> 0x30 \<or> length key = 1)
         \<and> nat (digits_value key) < 2 ^ 32 - 1
      then Some (nat (digits_value key)) else None)"

definition object_entries :: "(jsstring \<times> 'a) list \<Rightarrow> (jsstring \<times> 'a) list" where
  "object_entries obj =
     sort_key (\<lambda>(k, v). case array_index k of Some n \<Rightarrow> n | None \<Rightarrow> 0)
       (filter (\<lambda>(k, v). array_index k \<noteq> None) obj)
     @ filter (\<lambda>(k, v). array_index k = None) obj"

fun join_lines :: "jsstring list \<Rightarrow> jsstring" where
  "join_lines [] = []"
| "join_lines [m] = m"
| "join_lines (m # ms) = m @ [0x0A] @ join_lines ms"

definition report_row_of :: "jsstring \<times> ledger_entry \<Rightarrow> report_row" where
  "report_row_of kv =
     \<lparr>row_symbol = fst kv,
      row_company_name = (case entry_name (snd kv) of None \<Rightarrow> [] | Some n \<Rightarrow> n),
      row_messages = join_lines (entry_errors (snd kv))\<rparr>"

text \<open>Lines 293 to 310: the failure report at the end of the run.\<close>

definition write_report :: "env \<Rightarrow> world \<Rightarrow> world" where
  "write_report env w =
     (if length (object_entries (companyErrors w)) > 0 then
        (case xlsx_fault env of
           Some e \<Rightarrow>
             console_log (js ''Failed writing not found companies Excel: '' @ err_text e) w
         | None \<Rightarrow>
             let rows = map report_row_of (object_entries (companyErrors w))
             in console_log (js ''Written '' @ show_nat (length rows)
                   @ js '' companies with errors or missing reports to ''
                   @ [0x27] @ js ''not_found_companies.xlsx'' @ [0x27] @ js ''.'')
                  (w\<lparr>report := Some rows\<rparr>))
      else console_log (js ''All companies have reports on BSE or NSE.'') w)"

text \<open>
  \<^verbatim>\<open>main\<close>, from the worklist on: an empty sheet and a missing symbol column
  end the process with code 1; an exception that leaves the loop rejects the
  promise of \<^verbatim>\<open>main\<close>, and the report is then not reached. Starting and
  closing the browser and reading the workbook are taken to succeed.
\<close>

datatype run_end = Exit nat | Completed | Rejected js_error

definition main :: "env \<Rightarrow> sheet \<Rightarrow> world \<Rightarrow> run_end \<times> world" where
  "main env data w =
     (if length (sheet_rows data) = 0 then
        (Exit 1, console_log (js ''Excel sheet is empty'') w)
      else if \<not> symbolKey_found data then
        (Exit 1, console_log (js ''No '' @ [0x27] @ js ''symbol'' @ [0x27] @ js '' column found in Excel sheet.'') w)
      else
        (case process_rows env (companyKey_found data) 0 (sheet_rows data) w of
           (Inl err, w1) \<Rightarrow> (Rejected err, w1)
         | (Inr u, w1) \<Rightarrow> (Completed, console_log (js ''All done!'') (write_report env w1))))"


section \<open>What a run maintains\<close>

text \<open>The messages of the Ledger entry of \<open>key\<close>, none when there is no entry.\<close>

definition messages_of :: "jsstring \<Rightarrow> world \<Rightarrow> jsstring list" where
  "messages_of key w =
     (case map_of (companyErrors w) key of None \<Rightarrow> [] | Some e \<Rightarrow> entry_errors e)"

text \<open>The message \<open>message\<close> is among the messages of the Ledger entry of \<open>key\<close>.\<close>

definition has_message :: "jsstring \<Rightarrow> jsstring \<Rightarrow> world \<Rightarrow> bool" where
  "has_message key message w =
     (case map_of (companyErrors w) key of
        None \<Rightarrow> False
      | Some e \<Rightarrow> message \<in> set (entry_errors e))"

text \<open>
  The invariant of a run: every call of the fetcher was recorded with a year
  that parses to at least 2009, one request was made per recorded call, the
  failure report is not written yet, no call of \<^verbatim>\<open>extractZipToPdf\<close> has raised
  an exception to its caller, and the messages of \<open>M\<close> are in the Ledger.
\<close>

definition run_inv :: "(jsstring \<times> jsstring) set \<Rightarrow> world \<Rightarrow> bool" where
  "run_inv M w \<longleftrightarrow>
     length (surfaced w) = requests w
     \<and> list_all (\<lambda>r. year_from_2009 (ref_year r)) (surfaced w)
     \<and> report w = None
     \<and> normalizer_raised w = []
     \<and> (\<forall>(k, m) \<in> M. has_message k m w)"

text \<open>The status message of line 90, the message of the \<^verbatim>\<open>catch\<close> of line 161,
  and the status message for a row of the worklist.\<close>

definition trying_message :: "jsstring \<Rightarrow> jsstring option \<Rightarrow> jsstring" where
  "trying_message symbol name =
     js ''Trying BSE reports for '' @ show_name name @ js '' ('' @ symbol @ js '')''"

definition failed_message :: "jsstring \<Rightarrow> js_error \<Rightarrow> jsstring" where
  "failed_message symbol err =
     js ''BSE scraping failed for '' @ symbol @ js '': '' @ err_text err"

definition row_status :: "bool \<Rightarrow> sheet_row \<Rightarrow> jsstring \<times> jsstring" where
  "row_status companyKey row =
     (row_symbol_of row,
      trying_message (row_symbol_of row) (if companyKey then cell_company row else Some []))"


section \<open>Concrete environments\<close>

text \<open>A primary source whose table is empty, a fallback source whose table
  is empty, and an archive entry named \<^verbatim>\<open>report.PDF\<close>.\<close>

definition no_bse :: bse_session where
  "no_bse = \<lparr>bse_landing = None, bse_rows1 = Inr [], bse_next = Inr False,
             bse_landing2 = None, bse_rows2 = Inr []\<rparr>"

definition no_nse :: nse_session where
  "no_nse = \<lparr>nse_newPage = None, nse_landing = None, nse_table = Inr [], nse_close = None\<rparr>"

definition report_entry :: zip_entry where
  "report_entry = \<lparr>entryName = js ''report.PDF'', getData = Inr [0x25, 0x50, 0x44, 0x46]\<rparr>"

text \<open>An environment in which every request is answered with status 404,
  a file of 2048 bytes is an archive holding \<^verbatim>\<open>report.PDF\<close>, every other file
  is not an archive, and the file system refuses nothing.\<close>

definition plain_env :: env where
  "plain_env =
     \<lparr>net = (\<lambda>n url. Response 404 [] None),
      unzip = (\<lambda>bytes. if length bytes = 2048 then Inr [report_entry]
                       else Inl (JsError (js ''Error'') (js ''Invalid or unsupported zip format''))),
      fs_fault = (\<lambda>op path. None),
      path_join = (\<lambda>a b. a @ js ''/'' @ b),
      dirname = js ''/app'',
      bse_site = (\<lambda>i. no_bse),
      nse_site = (\<lambda>i. no_nse),
      xlsx_fault = None\<rparr>"

text \<open>A fresh state whose only file is \<^verbatim>\<open>a.zip\<close>, of \<open>n\<close> zero bytes.\<close>

definition archive_world :: "nat \<Rightarrow> world" where
  "archive_world n = initial_world [js ''a.zip'' \<mapsto> replicate n 0]"

text \<open>Fallback tables with one pdf of 2012, with one zip of 2012 and with one
  pdf of 2005; a primary source that cannot be reached; and a primary table
  with a header, a row of 2008 and a row of 2012.\<close>

definition nse_one_pdf :: nse_session where
  "nse_one_pdf =
     \<lparr>nse_newPage = None, nse_landing = None,
      nse_table = Inr [\<lparr>toYr_textContent = Some (js '' 2012 ''),
                        nse_anchor_href = Some (js ''https://x.test/AR_2012.PDF'')\<rparr>],
      nse_close = None\<rparr>"

definition nse_one_zip :: nse_session where
  "nse_one_zip =
     \<lparr>nse_newPage = None, nse_landing = None,
      nse_table = Inr [\<lparr>toYr_textContent = Some (js ''2012''),
                        nse_anchor_href = Some (js ''https://x.test/AR_2012.zip'')\<rparr>],
      nse_close = None\<rparr>"

definition nse_old_pdf :: nse_session where
  "nse_old_pdf =
     \<lparr>nse_newPage = None, nse_landing = None,
      nse_table = Inr [\<lparr>toYr_textContent = Some (js ''2005''),
                        nse_anchor_href = Some (js ''https://x.test/AR_2005.pdf'')\<rparr>],
      nse_close = None\<rparr>"

definition bse_unreachable :: bse_session where
  "bse_unreachable =
     \<lparr>bse_landing = Some (JsError (js ''TimeoutError'') (js ''Navigation timeout exceeded'')),
      bse_rows1 = Inr [], bse_next = Inr False, bse_landing2 = None, bse_rows2 = Inr []\<rparr>"

definition bse_two_rows :: bse_session where
  "bse_two_rows =
     \<lparr>bse_landing = None,
      bse_rows1 =
        Inr [Inr [\<lparr>innerText = js ''Year'', anchor_href = None\<rparr>,
                  \<lparr>innerText = js ''Report'', anchor_href = None\<rparr>],
             Inr [\<lparr>innerText = js ''2008-09'', anchor_href = None\<rparr>,
                  \<lparr>innerText = js ''pdf'', anchor_href = Some (js ''https://x.test/2008.pdf'')\<rparr>],
             Inr [\<lparr>innerText = js '' 2012-13 '', anchor_href = None\<rparr>,
                  \<lparr>innerText = js ''pdf'', anchor_href = Some (js ''https://x.test/2012.pdf'')\<rparr>]],
      bse_next = Inr False, bse_landing2 = None, bse_rows2 = Inr []\<rparr>"

text \<open>
  Variants of \<open>plain_env\<close>: the primary source shows \<open>bse_two_rows\<close>; writing the
  workbook fails; every request is answered with status 200 and four bytes;
  the fallback source shows \<open>nse_one_pdf\<close>; the fallback source shows
  \<open>nse_one_zip\<close> and every request is answered with 2000 bytes that are not an
  archive; and the primary source shows \<open>bse_two_rows\<close> to the first row of the
  worklist only, every request is answered with status 200, and the fallback
  source shows \<open>nse_old_pdf\<close>.
\<close>

definition bse_env :: env where
  "bse_env = plain_env\<lparr>bse_site := (\<lambda>i. bse_two_rows)\<rparr>"

definition xlsx_fault_env :: env where
  "xlsx_fault_env = plain_env\<lparr>xlsx_fault := Some (JsError (js ''Error'') (js ''EACCES: permission denied''))\<rparr>"

definition ok_env :: env where
  "ok_env = plain_env\<lparr>net := (\<lambda>n url. Response 200 [[0x25, 0x50], [0x44, 0x46]] None)\<rparr>"

definition nse_env :: env where
  "nse_env = plain_env\<lparr>nse_site := (\<lambda>i. nse_one_pdf)\<rparr>"

definition zip_env :: env where
  "zip_env = plain_env\<lparr>net := (\<lambda>n url. Response 200 [replicate 2000 0] None),
                        nse_site := (\<lambda>i. nse_one_zip)\<rparr>"

definition two_env :: env where
  "two_env = ok_env\<lparr>bse_site := (\<lambda>i. if i = 0 then bse_two_rows else no_bse),
                     nse_site := (\<lambda>i. nse_old_pdf)\<rparr>"

text \<open>A worklist with a symbol column only, and a state whose Ledger has one
  entry.\<close>

definition sheet_of :: "string list \<Rightarrow> sheet" where
  "sheet_of symbols =
     \<lparr>symbolKey_found = True, companyKey_found = False,
      sheet_rows = map (\<lambda>s. \<lparr>cell_symbol = Some (js s), cell_company = None\<rparr>) symbols\<rparr>"

definition ledger_world :: world where
  "ledger_world =
     (initial_world Map.empty)
       \<lparr>companyErrors := [(js ''ACME'', \<lparr>entry_name = Some (js ''Acme Ltd''),
                                         entry_errors = [js ''first'', js ''second'']\<rparr>)]\<rparr>"


section \<open>Evaluation\<close>

text \<open>The definitions a concrete run unfolds.\<close>

lemmas string_defs = js_def trim_def trimStart_def isWhiteSpace_def unsafe_char_def
  sanitize_filename_def parseInt10_def isDigit_def digits_value_def year_before_2009_def
  year_from_2009_def startsWith_def endsWith_def toLowerCase_def type_text_def show_name_def
  err_text_def object_prototype_keys_def

lemmas world_defs = initial_world_def console_log_def surface_def createWriteStream_def
  addError_def get_property_def

lemmas zip_defs = extractZipToPdf_def extractZipToPdf_try_def statSync_size_def
  AdmZip_getEntries_def

lemmas run_defs = main_def row_symbol_of_def process_company_def scrape_company_def
  scrapeBseReports_def scrapeBseReports_try_def extractAndDownloadReports_def bse_row_def
  bse_download_def bse_download_catch_def scrapeNseAnnualReports_def
  scrapeNseAnnualReports_try_def nse_report_of_def nse_download_def nse_download_try_def
  downloadFileWithSpeed_def write_report_def object_entries_def array_index_def
  report_row_of_def List.map_filter_simps Let_def

lemmas example_defs = plain_env_def ok_env_def bse_env_def xlsx_fault_env_def nse_env_def
  zip_env_def two_env_def no_bse_def no_nse_def nse_one_pdf_def nse_one_zip_def nse_old_pdf_def
  bse_unreachable_def bse_two_rows_def sheet_of_def ledger_world_def

lemma show_nat_404: "show_nat 404 = js ''404''"
  by (simp add: show_nat.simps js_def)


section \<open>Properties of the sanitization\<close>

lemma replace_unsafe_filter: "replace_unsafe s = filter (\<lambda>c. \<not> unsafe_char c) s"
proof (induction s rule: replace_unsafe.induct)
  case 1
  show ?case by simp
next
  case (2 c cs)
  show ?case
  proof (cases "unsafe_char c")
    case True
    have "filter (\<lambda>c. \<not> unsafe_char c) (dropWhile unsafe_char cs)
            = filter (\<lambda>c. \<not> unsafe_char c) cs"
      by (induction cs) auto
    with True 2 show ?thesis by simp
  next
    case False
    with 2 show ?thesis by simp
  qed
qed

lemma set_trimStart: "set (trimStart s) \<subseteq> set s"
  by (simp add: trimStart_def set_dropWhileD subsetI)

lemma set_trim: "set (trim s) \<subseteq> set s"
proof -
  have "set (trim s) \<subseteq> set (rev (trimStart s))"
    using set_trimStart [of "rev (trimStart s)"] by (simp add: trim_def)
  also have "\<dots> \<subseteq> set s"
    using set_trimStart [of s] by simp
  finally show ?thesis .
qed

lemma trimStart_no_leading: "trimStart s = [] \<or> \<not> isWhiteSpace (hd (trimStart s))"
  unfolding trimStart_def using hd_dropWhile [of isWhiteSpace s] by blast

lemma dropWhile_id: "xs = [] \<or> \<not> P (hd xs) \<Longrightarrow> dropWhile P xs = xs"
  by (cases xs) auto

lemma trim_ends:
  "trim s = [] \<or> (\<not> isWhiteSpace (hd (trim s)) \<and> \<not> isWhiteSpace (last (trim s)))"
proof (cases "trim s = []")
  case True
  then show ?thesis by simp
next
  case False
  define t where "t = trimStart s"
  define u where "u = trimStart (rev t)"
  have tr: "trim s = rev u" by (simp add: trim_def t_def u_def)
  with False have u_ne: "u \<noteq> []" by simp
  then have "\<not> isWhiteSpace (hd u)"
    using trimStart_no_leading [of "rev t"] by (simp add: u_def)
  then have last_ok: "\<not> isWhiteSpace (last (trim s))"
    using u_ne by (simp add: tr last_rev)
  have "\<exists>ws. rev t = ws @ u"
    unfolding u_def trimStart_def
    by (metis takeWhile_dropWhile_id)
  then obtain ws where "rev t = ws @ u" ..
  then have t_eq: "t = rev u @ rev ws" by (metis rev_append rev_rev_ident)
  have "t \<noteq> []" using t_eq u_ne by simp
  then have "\<not> isWhiteSpace (hd t)"
    using trimStart_no_leading [of s] by (simp add: t_def)
  moreover have "hd t = hd (rev u)" using t_eq u_ne by simp
  ultimately have "\<not> isWhiteSpace (hd (trim s))" by (simp add: tr)
  with last_ok show ?thesis by simp
qed

lemma trim_fixed:
  assumes "s = [] \<or> (\<not> isWhiteSpace (hd s) \<and> \<not> isWhiteSpace (last s))"
  shows "trim s = s"
proof (cases "s = []")
  case True
  then show ?thesis by (simp add: trim_def trimStart_def)
next
  case False
  with assms have h: "\<not> isWhiteSpace (hd s)" and l: "\<not> isWhiteSpace (last s)" by auto
  have 1: "trimStart s = s"
    unfolding trimStart_def using h by (intro dropWhile_id) simp
  have "hd (rev s) = last s" using False by (simp add: hd_rev)
  then have 2: "trimStart (rev s) = rev s"
    unfolding trimStart_def using l by (intro dropWhile_id) simp
  show ?thesis by (simp add: trim_def 1 2)
qed

lemma trim_idem: "trim (trim s) = trim s"
  by (rule trim_fixed) (rule trim_ends)

lemma replace_unsafe_fixed:
  assumes "\<forall>c \<in> set s. \<not> unsafe_char c"
  shows "replace_unsafe s = s"
  using assms by (simp add: replace_unsafe_filter)

lemma sanitize_filename_safe: "c \<in> set (sanitize_filename s) \<Longrightarrow> \<not> unsafe_char c"
proof -
  assume "c \<in> set (sanitize_filename s)"
  then have "c \<in> set (replace_unsafe s)"
    using set_trim [of "replace_unsafe s"] by (auto simp: sanitize_filename_def)
  then show ?thesis by (simp add: replace_unsafe_filter)
qed

text \<open>
  C9. Sanitizing a file name (removing the characters
  backslash, slash, colon, double quote, asterisk, question mark, less-than,
  greater-than and vertical bar, then trimming surrounding white space) is
  idempotent: sanitizing the result again gives the same name, for every
  string.
\<close>

theorem sanitize_filename_idempotent:
  "sanitize_filename (sanitize_filename s) = sanitize_filename s"
proof -
  have "replace_unsafe (sanitize_filename s) = sanitize_filename s"
    by (rule replace_unsafe_fixed) (auto dest: sanitize_filename_safe)
  then have "sanitize_filename (sanitize_filename s) = trim (sanitize_filename s)"
    by (simp add: sanitize_filename_def)
  also have "\<dots> = sanitize_filename s"
    by (simp add: sanitize_filename_def trim_idem)
  finally show ?thesis .
qed


section \<open>Properties of the Error Ledger\<close>

lemma map_of_push_error:
  "map_of (push_error key message obj) k =
     (if k = key then map_option (\<lambda>e. e\<lparr>entry_errors := entry_errors e @ [message]\<rparr>) (map_of obj key)
      else map_of obj k)"
  by (induction obj) auto

lemma map_of_snoc:
  "map_of (obj @ [(k, v)]) k' =
     (case map_of obj k' of Some x \<Rightarrow> Some x | None \<Rightarrow> if k' = k then Some v else None)"
  by (induction obj) auto

lemma addError_ok:
  assumes "symbol \<notin> set object_prototype_keys"
  shows "fst (addError symbol name message w) = Inr ()"
  using assms
  by (auto simp: addError_def get_property_def Let_def map_of_snoc
           simp del: map_of_append split: option.splits property.splits)

lemma addError_frame:
  "files (snd (addError symbol name message w)) = files w"
  "surfaced (snd (addError symbol name message w)) = surfaced w"
  "requests (snd (addError symbol name message w)) = requests w"
  "open_streams (snd (addError symbol name message w)) = open_streams w"
  "report (snd (addError symbol name message w)) = report w"
  "normalizer_raised (snd (addError symbol name message w)) = normalizer_raised w"
  by (auto simp: addError_def get_property_def Let_def console_log_def
           split: option.splits property.splits)

lemma addError_recorded:
  assumes "symbol \<notin> set object_prototype_keys"
  shows "\<exists>e. map_of (companyErrors (snd (addError symbol name message w))) symbol = Some e
             \<and> entry_errors e \<noteq> [] \<and> last (entry_errors e) = message"
  using assms
  by (auto simp: addError_def get_property_def Let_def console_log_def map_of_push_error
                 map_of_snoc
           simp del: map_of_append split: option.splits property.splits)

lemma addError_inherited:
  assumes "symbol \<in> set object_prototype_keys" and "map_of (companyErrors w) symbol = None"
  shows "addError symbol name message w =
           (Inl (JsError (js ''TypeError'')
                   (js ''Cannot read properties of undefined (reading push)'')), w)"
  using assms by (simp add: addError_def get_property_def Let_def)

text \<open>A symbol that has an entry never makes \<^verbatim>\<open>addError\<close> throw, and a call
  that returns has put its message last in the entry of its symbol.\<close>

lemma addError_entry_ok:
  assumes "map_of (companyErrors w) symbol \<noteq> None"
  shows "fst (addError symbol name message w) = Inr ()"
  using assms
  by (auto simp: addError_def get_property_def Let_def split: option.splits property.splits)

lemma addError_returns_message:
  assumes "addError symbol name message w = (Inr u, w')"
  shows "\<exists>e. map_of (companyErrors w') symbol = Some e
             \<and> entry_errors e \<noteq> [] \<and> last (entry_errors e) = message"
  using assms
  by (auto simp: addError_def get_property_def Let_def console_log_def map_of_push_error
                 map_of_snoc
           simp del: map_of_append split: option.splits property.splits if_splits)

lemma addError_messages_of:
  assumes "symbol \<notin> set object_prototype_keys"
  shows "messages_of symbol (snd (addError symbol name message w))
           = messages_of symbol w @ [message]"
  using assms
  by (auto simp: messages_of_def addError_def get_property_def Let_def console_log_def
                 map_of_push_error map_of_snoc
           simp del: map_of_append split: option.splits property.splits)

lemma ACME_ordinary: "js ''ACME'' \<notin> set object_prototype_keys"
  by (simp add: object_prototype_keys_def js_def)

lemma ZETA_ordinary: "js ''ZETA'' \<notin> set object_prototype_keys"
  by (simp add: object_prototype_keys_def js_def)


section \<open>Properties of the Fetcher\<close>

text \<open>
  C10. Whenever a fetch fails, also when the remote endpoint answers at once
  with a status other than 200 and no byte of the body has arrived, the
  destination write stream has been created before: after the failure a file
  (possibly empty) exists at the destination path, and the fetcher has
  neither closed the stream nor removed the file before rejecting.
\<close>

theorem downloadFileWithSpeed_failure_leaves_file:
  assumes "downloadFileWithSpeed env url dest w = (Inl err, w')"
  shows "files w' dest \<noteq> None \<and> dest \<in> set (open_streams w')
         \<and> ((\<exists>e. net env (requests w) url = RequestError e)
              \<or> (\<exists>status chunks failure. net env (requests w) url = Response status chunks failure
                    \<and> status \<noteq> 200)
            \<longrightarrow> files w' dest = Some [])"
  using assms
  by (auto simp: downloadFileWithSpeed_def createWriteStream_def Let_def console_log_def
           split: net_outcome.splits if_splits option.splits)

text \<open>A request that is answered with status 404: the fetch rejects, the
  destination exists and is empty, and its stream is still open.\<close>

theorem downloadFileWithSpeed_failure_leaves_file_witness:
  "fst (downloadFileWithSpeed plain_env (js ''https://x.test/a.pdf'') (js ''a.pdf'')
          (initial_world Map.empty))
     = Inl (JsError (js ''Error'')
             (js ''Failed to download '' @ [0x27] @ js ''https://x.test/a.pdf'' @ [0x27]
                @ js '' (Status '' @ show_nat 404 @ js '')''))
   \<and> files (snd (downloadFileWithSpeed plain_env (js ''https://x.test/a.pdf'') (js ''a.pdf'')
          (initial_world Map.empty))) (js ''a.pdf'') = Some []
   \<and> js ''a.pdf'' \<in> set (open_streams (snd (downloadFileWithSpeed plain_env
          (js ''https://x.test/a.pdf'') (js ''a.pdf'') (initial_world Map.empty))))"
proof -
  let ?r = "downloadFileWithSpeed plain_env (js ''https://x.test/a.pdf'') (js ''a.pdf'')
              (initial_world Map.empty)"
  have net: "net plain_env (requests (initial_world Map.empty)) (js ''https://x.test/a.pdf'')
               = Response 404 [] None"
    by (simp add: plain_env_def)
  have h1: "fst ?r = Inl (JsError (js ''Error'')
             (js ''Failed to download '' @ [0x27] @ js ''https://x.test/a.pdf'' @ [0x27]
                @ js '' (Status '' @ show_nat 404 @ js '')''))"
    by (simp add: downloadFileWithSpeed_def plain_env_def initial_world_def Let_def)
  then have h: "?r = (Inl (JsError (js ''Error'')
             (js ''Failed to download '' @ [0x27] @ js ''https://x.test/a.pdf'' @ [0x27]
                @ js '' (Status '' @ show_nat 404 @ js '')'')), snd ?r)"
    by (metis prod.collapse)
  show ?thesis
    using downloadFileWithSpeed_failure_leaves_file [OF h] net h1 by auto
qed


section \<open>Properties of the Archive Normalizer\<close>

lemma writeFileSync_keeps:
  "writeFileSync env path data w = (r, w1) \<Longrightarrow> files w p \<noteq> None \<Longrightarrow> files w1 p \<noteq> None"
  by (auto simp: writeFileSync_def split: option.splits)

lemma extract_entries_keeps:
  "extract_entries env folderPath symbol year entries extracted w = (r, w1)
     \<Longrightarrow> files w p \<noteq> None \<Longrightarrow> files w1 p \<noteq> None"
proof (induction entries arbitrary: extracted w)
  case Nil
  then show ?case by auto
next
  case (Cons entry entries)
  then show ?case
    by (auto simp: Let_def console_log_def split: if_splits sum.splits prod.splits
             dest!: writeFileSync_keeps)
qed

lemma extractZipToPdf_files:
  "files (snd (extractZipToPdf env z f s y w)) = files (snd (extractZipToPdf_try env z f s y w))"
  by (auto simp: extractZipToPdf_def addError_frame split: prod.splits sum.splits)

lemma try_deleted_iff:
  assumes "files w z = Some bytes" and "1024 \<le> length bytes"
  shows "files (snd (extractZipToPdf_try env z f s y w)) z = None
           \<longleftrightarrow> fst (extractZipToPdf_try env z f s y w) = Inr ()"
  using assms
  by (auto simp: extractZipToPdf_try_def statSync_size_def AdmZip_getEntries_def unlinkSync_def
                 console_log_def
           split: sum.splits prod.splits option.splits if_splits
           dest: extract_entries_keeps)

text \<open>
  C5. For every archive smaller than 1024 bytes the Archive Normalizer only
  prints its warning and returns: the result does not depend on what the
  archive library or the file system would do, so the archive is never opened
  and no entry is written, and the archive file stays in place.
\<close>

theorem extractZipToPdf_small_archive:
  assumes "files w zipFilePath = Some bytes" and "length bytes < 1024"
  shows "extractZipToPdf env zipFilePath folderPath symbol year w =
           (Inr (), console_log (js ''ZIP file too small ('' @ show_nat (length bytes)
                        @ js '' bytes), skipping extraction: '' @ zipFilePath) w)
         \<and> files (snd (extractZipToPdf env zipFilePath folderPath symbol year w)) = files w"
  using assms
  by (simp add: extractZipToPdf_def extractZipToPdf_try_def statSync_size_def console_log_def)

text \<open>An archive of 100 bytes stays where it is.\<close>

theorem extractZipToPdf_small_archive_witness:
  "files (archive_world 100) (js ''a.zip'') = Some (replicate 100 0)
   \<and> length (replicate 100 (0::byte)) < 1024
   \<and> fst (extractZipToPdf plain_env (js ''a.zip'') (js ''d'') (js ''ACME'') (js ''2012'')
            (archive_world 100)) = Inr ()
   \<and> files (snd (extractZipToPdf plain_env (js ''a.zip'') (js ''d'') (js ''ACME'') (js ''2012'')
            (archive_world 100))) (js ''a.zip'') = Some (replicate 100 0)"
proof -
  have f: "files (archive_world 100) (js ''a.zip'') = Some (replicate 100 0)"
    by (simp add: archive_world_def initial_world_def)
  have l: "length (replicate 100 (0::byte)) < 1024" by simp
  show ?thesis
    using extractZipToPdf_small_archive [OF f l, of plain_env "js ''d''" "js ''ACME''" "js ''2012''"] f
    by (simp add: console_log_def)
qed

text \<open>
  C4, as stated, fails: an archive of at least 1 KiB that the archive library
  cannot open is not deleted. Here \<^verbatim>\<open>a.zip\<close> has 4096 bytes, the constructor
  of the library throws, the error goes to the Ledger, and the file is still
  there afterwards.
\<close>

theorem extractZipToPdf_corrupt_archive_kept:
  "files (archive_world 4096) (js ''a.zip'') = Some (replicate 4096 0)
   \<and> 1024 \<le> length (replicate 4096 (0::byte))
   \<and> files (snd (extractZipToPdf plain_env (js ''a.zip'') (js ''d'') (js ''ACME'') (js ''2012'')
            (archive_world 4096))) (js ''a.zip'') = Some (replicate 4096 0)"
  by (simp add: extractZipToPdf_files extractZipToPdf_try_def statSync_size_def
        AdmZip_getEntries_def archive_world_def initial_world_def plain_env_def)

text \<open>
  C4, amended. For every archive of at least 1 KiB: when the archive opens,
  the loop over its entries completes and the removal is not refused, the
  archive file is deleted, whether or not a pdf entry was extracted; and the
  archive file is deleted exactly when the \<^verbatim>\<open>try\<close> block completes without an
  exception. Besides the size guard, an exception thrown while the archive is
  opened, an entry is read or written, or the file is removed leaves the
  archive in place.
\<close>

theorem extractZipToPdf_deletes_archive:
  assumes "files w z = Some bytes" and "1024 \<le> length bytes"
  shows "(unzip env bytes = Inr entries
            \<and> extract_entries env f s y entries False w = (Inr extracted, w1)
            \<and> fs_fault env OpUnlink z = None
          \<longrightarrow> files (snd (extractZipToPdf env z f s y w)) z = None)
       \<and> (files (snd (extractZipToPdf env z f s y w)) z = None
            \<longleftrightarrow> fst (extractZipToPdf_try env z f s y w) = Inr ())"
proof -
  have "files (snd (extractZipToPdf_try env z f s y w)) z = None"
    if "unzip env bytes = Inr entries"
      and "extract_entries env f s y entries False w = (Inr extracted, w1)"
      and "fs_fault env OpUnlink z = None"
  proof -
    have "files w1 z \<noteq> None"
      using extract_entries_keeps [OF that(2)] assms(1) by simp
    then show ?thesis
      using that assms
      by (auto simp: extractZipToPdf_try_def statSync_size_def AdmZip_getEntries_def
                     unlinkSync_def console_log_def)
  qed
  then show ?thesis
    using try_deleted_iff [OF assms] by (simp add: extractZipToPdf_files)
qed

text \<open>An archive of 2048 bytes that holds \<^verbatim>\<open>report.PDF\<close>: the entry is written
  under the canonical name and the archive is deleted.\<close>

lemma report_entry_is_pdf: "endsWith (toLowerCase (entryName report_entry)) (js ''.pdf'')"
  by (simp add: report_entry_def js_def toLowerCase_def endsWith_def)

lemma report_entry_data: "getData report_entry = Inr [0x25, 0x50, 0x44, 0x46]"
  by (simp add: report_entry_def)

theorem extractZipToPdf_deletes_archive_witness:
  "files (archive_world 2048) (js ''a.zip'') = Some (replicate 2048 0)
   \<and> 1024 \<le> length (replicate 2048 (0::byte))
   \<and> unzip plain_env (replicate 2048 0) = Inr [report_entry]
   \<and> fst (extract_entries plain_env (js ''d'') (js ''ACME'') (js ''2012'') [report_entry] False
            (archive_world 2048)) = Inr True
   \<and> fs_fault plain_env OpUnlink (js ''a.zip'') = None
   \<and> files (snd (extractZipToPdf plain_env (js ''a.zip'') (js ''d'') (js ''ACME'') (js ''2012'')
            (archive_world 2048))) (js ''a.zip'') = None
   \<and> fst (extractZipToPdf_try plain_env (js ''a.zip'') (js ''d'') (js ''ACME'') (js ''2012'')
            (archive_world 2048)) = Inr ()"
proof -
  let ?w = "archive_world 2048"
  let ?x = "extract_entries plain_env (js ''d'') (js ''ACME'') (js ''2012'') [report_entry] False ?w"
  have f: "files ?w (js ''a.zip'') = Some (replicate 2048 0)"
    by (simp add: archive_world_def initial_world_def)
  have l: "1024 \<le> length (replicate 2048 (0::byte))" by simp
  have u: "unzip plain_env (replicate 2048 0) = Inr [report_entry]"
    by (simp add: plain_env_def)
  have x1: "fst ?x = Inr True"
    using report_entry_is_pdf
    by (simp add: Let_def writeFileSync_def plain_env_def report_entry_data)
  then have x: "?x = (Inr True, snd ?x)"
    by (metis prod.collapse)
  have d: "fs_fault plain_env OpUnlink (js ''a.zip'') = None"
    by (simp add: plain_env_def)
  note inst = extractZipToPdf_deletes_archive [OF f l, of plain_env "[report_entry]" "js ''d''"
        "js ''ACME''" "js ''2012''" True "snd ?x"]
  from inst u x d
  have del: "files (snd (extractZipToPdf plain_env (js ''a.zip'') (js ''d'') (js ''ACME'')
               (js ''2012'') ?w)) (js ''a.zip'') = None"
    by blast
  with inst
  have ok: "fst (extractZipToPdf_try plain_env (js ''a.zip'') (js ''d'') (js ''ACME'')
               (js ''2012'') ?w) = Inr ()"
    by blast
  show ?thesis
    using f l u x1 d del ok by blast
qed

text \<open>The Ledger is touched by the \<^verbatim>\<open>catch\<close> only; with an entry for the
  symbol the function returns.\<close>

lemma writeFileSync_ledger:
  "writeFileSync env path data w = (r, w1) \<Longrightarrow> companyErrors w1 = companyErrors w"
  by (auto simp: writeFileSync_def split: option.splits)

lemma extract_entries_ledger:
  "extract_entries env folderPath symbol year entries extracted w = (r, w1)
     \<Longrightarrow> companyErrors w1 = companyErrors w"
proof (induction entries arbitrary: extracted w)
  case Nil
  then show ?case by auto
next
  case (Cons entry entries)
  then show ?case
    by (auto simp: Let_def console_log_def split: if_splits sum.splits prod.splits
             dest!: writeFileSync_ledger)
qed

lemma extractZipToPdf_try_ledger:
  "extractZipToPdf_try env z f s y w = (r, w1) \<Longrightarrow> companyErrors w1 = companyErrors w"
  by (auto simp: extractZipToPdf_try_def unlinkSync_def console_log_def
           split: sum.splits prod.splits option.splits if_splits
           dest!: extract_entries_ledger)

lemma extractZipToPdf_entry_ok:
  assumes "map_of (companyErrors w) symbol \<noteq> None"
  shows "fst (extractZipToPdf env z f symbol y w) = Inr ()"
proof -
  obtain r w1 where t: "extractZipToPdf_try env z f symbol y w = (r, w1)"
    by (metis prod.collapse)
  have "map_of (companyErrors w1) symbol \<noteq> None"
    using extractZipToPdf_try_ledger [OF t] assms by simp
  from addError_entry_ok [OF this] show ?thesis
    by (cases r) (simp_all add: extractZipToPdf_def t)
qed

lemma extractZipToPdf_failure_recorded:
  assumes "extractZipToPdf_try env z f symbol y w = (Inl err, w1)"
    and "fst (extractZipToPdf env z f symbol y w) = Inr ()"
  shows "\<exists>e. map_of (companyErrors (snd (extractZipToPdf env z f symbol y w))) symbol = Some e
             \<and> entry_errors e \<noteq> []
             \<and> last (entry_errors e)
                 = js ''Error extracting ZIP file '' @ z @ js '': '' @ err_text err"
proof -
  let ?a = "addError symbol (Some [])
              (js ''Error extracting ZIP file '' @ z @ js '': '' @ err_text err) w1"
  have x: "extractZipToPdf env z f symbol y w = ?a"
    by (simp add: extractZipToPdf_def assms(1))
  then have "?a = (Inr (), snd ?a)"
    using assms(2) by (metis prod.collapse)
  from addError_returns_message [OF this] show ?thesis
    by (simp add: x)
qed


section \<open>The invariant of a run\<close>

text \<open>Every function of the program maintains \<open>run_inv\<close>, whatever it returns
  or throws.\<close>

lemma year_tests: "\<not> year_before_2009 y \<longleftrightarrow> year_from_2009 y"
  by (auto simp: year_before_2009_def year_from_2009_def split: option.splits)

lemma inv_console_log [simp]: "run_inv M (console_log line w) = run_inv M w"
  by (simp add: run_inv_def console_log_def has_message_def)

lemma addError_keeps_message:
  assumes "has_message k m w"
  shows "has_message k m (snd (addError symbol name message w))"
  using assms
  by (auto simp: has_message_def addError_def get_property_def Let_def console_log_def
                 map_of_push_error map_of_snoc
           simp del: map_of_append split: option.splits property.splits)

lemma inv_addError:
  "addError symbol name message w = (r, w') \<Longrightarrow> run_inv M w \<Longrightarrow> run_inv M w'"
  using addError_frame(2,3,5,6) [of symbol name message w]
    addError_keeps_message [of _ _ w symbol name message]
  by (auto simp: run_inv_def)

lemma inv_download:
  assumes "downloadFileWithSpeed env url dest (surface year url dest w) = (r, w')"
    and "run_inv M w" and "year_from_2009 year"
  shows "run_inv M w'"
  using assms
  by (auto simp: downloadFileWithSpeed_def createWriteStream_def surface_def Let_def
                 run_inv_def has_message_def console_log_def
           split: net_outcome.splits if_splits option.splits)

lemma inv_writeFileSync:
  "writeFileSync env path data w = (r, w') \<Longrightarrow> run_inv M w \<Longrightarrow> run_inv M w'"
  by (auto simp: writeFileSync_def run_inv_def has_message_def split: option.splits)

lemma inv_unlinkSync:
  "unlinkSync env path w = (r, w') \<Longrightarrow> run_inv M w \<Longrightarrow> run_inv M w'"
  by (auto simp: unlinkSync_def run_inv_def has_message_def split: option.splits)

lemma inv_renameSync:
  "renameSync env p q w = (r, w') \<Longrightarrow> run_inv M w \<Longrightarrow> run_inv M w'"
  by (auto simp: renameSync_def run_inv_def has_message_def split: option.splits)

lemma inv_extract_entries:
  "extract_entries env folderPath symbol year entries extracted w = (r, w')
     \<Longrightarrow> run_inv M w \<Longrightarrow> run_inv M w'"
proof (induction entries arbitrary: extracted w)
  case Nil
  then show ?case by auto
next
  case (Cons entry entries)
  then show ?case
    by (auto simp: Let_def split: if_splits sum.splits prod.splits dest!: inv_writeFileSync)
qed

lemma inv_extractZipToPdf_try:
  "extractZipToPdf_try env z f s y w = (r, w') \<Longrightarrow> run_inv M w \<Longrightarrow> run_inv M w'"
  by (auto simp: extractZipToPdf_try_def
           split: sum.splits prod.splits if_splits
           dest!: inv_extract_entries inv_unlinkSync)

lemma inv_extractZipToPdf:
  "extractZipToPdf env z f s y w = (r, w') \<Longrightarrow> run_inv M w \<Longrightarrow> run_inv M w'"
  by (auto simp: extractZipToPdf_def split: sum.splits prod.splits
           dest!: inv_extractZipToPdf_try inv_addError)

lemma inv_bse_download_catch:
  "bse_download_catch company filename d err w = (r, w') \<Longrightarrow> run_inv M w \<Longrightarrow> run_inv M w'"
  by (auto simp: bse_download_catch_def split: sum.splits prod.splits dest!: inv_addError)

lemma inv_bse_download:
  assumes "bse_download env company year url filename filepath d w = (r, w')"
    and "run_inv M w" and "year_from_2009 year"
  shows "run_inv M w'"
  using assms
  by (auto simp: bse_download_def split: sum.splits prod.splits
           dest!: inv_addError inv_bse_download_catch dest: inv_download)

lemma inv_bse_row:
  "bse_row env company folder row d w = (r, w') \<Longrightarrow> run_inv M w \<Longrightarrow> run_inv M w'"
  by (auto simp: bse_row_def Let_def year_tests
           split: sum.splits if_splits option.splits dest: inv_bse_download)

lemma inv_bse_rows:
  "bse_rows env company folder rows d w = (r, w') \<Longrightarrow> run_inv M w \<Longrightarrow> run_inv M w'"
proof (induction rows arbitrary: d w)
  case Nil
  then show ?case by auto
next
  case (Cons row rows)
  then show ?case
    by (auto split: sum.splits prod.splits dest: inv_bse_row)
qed

lemma inv_extractAndDownloadReports:
  "extractAndDownloadReports env company folder table d w = (r, w')
     \<Longrightarrow> run_inv M w \<Longrightarrow> run_inv M w'"
  by (auto simp: extractAndDownloadReports_def split: sum.splits dest: inv_bse_rows)

lemma inv_scrapeBseReports_try:
  "scrapeBseReports_try env session company w = (r, w') \<Longrightarrow> run_inv M w \<Longrightarrow> run_inv M w'"
  by (auto simp: scrapeBseReports_try_def Let_def
           split: sum.splits prod.splits option.splits if_splits
           dest: inv_extractAndDownloadReports)

lemma run_inv_mono: "run_inv M w \<Longrightarrow> M' \<subseteq> M \<Longrightarrow> run_inv M' w"
  by (auto simp: run_inv_def)

lemma inv_scrapeBseReports:
  "scrapeBseReports env session company w = (r, w') \<Longrightarrow> run_inv M w \<Longrightarrow> run_inv M w'"
  by (auto simp: scrapeBseReports_def
           split: sum.splits prod.splits
           dest: inv_scrapeBseReports_try inv_addError)

lemma addError_gives_message:
  assumes "addError symbol name message w = (Inr u, w')"
  shows "has_message symbol message w'"
  using addError_returns_message [OF assms]
  by (auto simp: has_message_def dest: last_in_set)

lemma inv_addError_key:
  assumes "addError symbol name message w = (Inr u, w')" and "run_inv M w"
  shows "run_inv (insert (symbol, message) M) w'"
  using inv_addError [OF assms] addError_gives_message [OF assms(1)]
  by (simp add: run_inv_def)

text \<open>A primary attempt that returns has left the status message of line 90
  in the Ledger entry of its symbol.\<close>

lemma inv_scrapeBseReports_key:
  assumes "scrapeBseReports env session company w = (Inr found, w')" and "run_inv M w"
  shows "run_inv (insert (company_symbol company,
                          trying_message (company_symbol company) (company_name company)) M) w'"
proof -
  let ?M = "insert (company_symbol company,
                    trying_message (company_symbol company) (company_name company)) M"
  obtain r1 w1 where a: "addError (company_symbol company) (company_name company)
             (trying_message (company_symbol company) (company_name company)) w = (r1, w1)"
    by (metis prod.collapse)
  obtain u where r1: "r1 = Inr u"
    using assms(1) a by (cases r1) (auto simp: scrapeBseReports_def trying_message_def)
  have w1: "run_inv ?M w1"
    using inv_addError_key [OF a [unfolded r1] assms(2)] .
  obtain r2 w2 where t: "scrapeBseReports_try env session company w1 = (r2, w2)"
    by (metis prod.collapse)
  have w2: "run_inv ?M w2"
    using inv_scrapeBseReports_try [OF t w1] .
  show ?thesis
    using assms(1) a r1 t w2
    by (auto simp: scrapeBseReports_def trying_message_def
             split: sum.splits prod.splits dest: inv_addError)
qed

lemma nse_report_of_year: "nse_report_of row = Some rep \<Longrightarrow> year_from_2009 (report_year rep)"
  by (auto simp: nse_report_of_def Let_def split: option.splits if_splits)

text \<open>With an entry for its symbol, the call of line 226 returns.\<close>

lemma inv_normalizer_returns:
  assumes "extractZipToPdf env z f symbol y w = (r, w')" and "run_inv M w"
    and "(symbol, m) \<in> M"
  shows "r = Inr ()"
proof -
  have "has_message symbol m w"
    using assms(2,3) by (auto simp: run_inv_def)
  then have "map_of (companyErrors w) symbol \<noteq> None"
    by (auto simp: has_message_def split: option.splits)
  from extractZipToPdf_entry_ok [OF this, of env z f y] assms(1) show ?thesis by simp
qed

lemma inv_nse_download_try:
  assumes "nse_download_try env symbol folder rep filename destPath w = (r, w')"
    and "run_inv M w" and "year_from_2009 (report_year rep)" and "(symbol, m) \<in> M"
  shows "run_inv M w'"
proof -
  obtain r1 w1 where d: "downloadFileWithSpeed env (report_url rep) destPath
                           (surface (report_year rep) (report_url rep) destPath w) = (r1, w1)"
    by (metis prod.collapse)
  have w1: "run_inv M w1"
    using inv_download [OF d assms(2,3)] .
  show ?thesis
  proof (cases r1)
    case (Inl err)
    with assms(1) d w1 show ?thesis by (simp add: nse_download_try_def Let_def)
  next
    case (Inr u)
    show ?thesis
    proof (cases "report_type rep")
      case Zip
      obtain r2 w2 where x: "extractZipToPdf env destPath folder symbol (report_year rep) w1
                               = (r2, w2)"
        by (metis prod.collapse)
      have "r2 = Inr ()"
        using inv_normalizer_returns [OF x w1 assms(4)] .
      moreover have "run_inv M w2"
        using inv_extractZipToPdf [OF x w1] .
      ultimately show ?thesis
        using assms(1) d Inr Zip x by (simp add: nse_download_try_def Let_def)
    next
      case Pdf
      with assms(1) d Inr w1 show ?thesis
        by (auto simp: nse_download_try_def Let_def split: if_splits dest: inv_renameSync)
    qed
  qed
qed

lemma inv_nse_download:
  assumes "nse_download env symbol companyName folder rep w = (r, w')"
    and "run_inv M w" and "year_from_2009 (report_year rep)" and "(symbol, m) \<in> M"
  shows "run_inv M w'"
  using assms
  by (auto simp: nse_download_def Let_def
           split: sum.splits prod.splits
           dest: inv_nse_download_try inv_addError)

lemma inv_nse_reports:
  "nse_reports env symbol companyName folder reps w = (r, w') \<Longrightarrow> run_inv M w
     \<Longrightarrow> list_all (\<lambda>rep. year_from_2009 (report_year rep)) reps \<Longrightarrow> (symbol, m) \<in> M
     \<Longrightarrow> run_inv M w'"
proof (induction reps arbitrary: w)
  case Nil
  then show ?case by auto
next
  case (Cons rep reps)
  then show ?case
    by (auto split: sum.splits prod.splits dest: inv_nse_download)
qed

lemma map_filter_years:
  "list_all (\<lambda>rep. year_from_2009 (report_year rep)) (List.map_filter nse_report_of rows)"
  by (induction rows) (auto simp: List.map_filter_simps nse_report_of_year split: option.splits)

lemma inv_scrapeNseAnnualReports_try:
  "scrapeNseAnnualReports_try env session symbol companyName w = (r, w')
     \<Longrightarrow> run_inv M w \<Longrightarrow> (symbol, m) \<in> M \<Longrightarrow> run_inv M w'"
  using map_filter_years
  by (auto simp: scrapeNseAnnualReports_try_def Let_def
           split: sum.splits prod.splits option.splits if_splits
           dest: inv_nse_reports)

lemma inv_scrapeNseAnnualReports:
  "scrapeNseAnnualReports env session symbol companyName w = (r, w')
     \<Longrightarrow> run_inv M w \<Longrightarrow> (symbol, m) \<in> M \<Longrightarrow> run_inv M w'"
  by (auto simp: scrapeNseAnnualReports_def
           split: sum.splits prod.splits option.splits
           dest: inv_scrapeNseAnnualReports_try inv_addError)

text \<open>The fallback is reached only after a primary attempt that returned, so
  its symbol has an entry.\<close>

lemma inv_scrape_company_found:
  assumes "scrape_company env i symbol companyName w = (r, w')" and "run_inv M w"
    and "scrapeBseReports env (bse_site env i)
           \<lparr>company_symbol = symbol, company_name = companyName\<rparr> w = (Inr found, w1)"
  shows "run_inv (insert (symbol, trying_message symbol companyName) M) w'"
proof -
  let ?M = "insert (symbol, trying_message symbol companyName) M"
  have w1: "run_inv ?M w1"
    using inv_scrapeBseReports_key [OF assms(3,2)] by simp
  show ?thesis
  proof (cases found)
    case True
    with assms(1,3) w1 show ?thesis by (simp add: scrape_company_def)
  next
    case False
    obtain r2 w2 where n: "scrapeNseAnnualReports env (nse_site env i) symbol companyName w1
                             = (r2, w2)"
      by (metis prod.collapse)
    have w2: "run_inv ?M w2"
      using inv_scrapeNseAnnualReports [OF n w1, of "trying_message symbol companyName"]
      by simp
    show ?thesis
      using assms(1,3) False n w2
      by (auto simp: scrape_company_def split: sum.splits if_splits dest: inv_addError)
  qed
qed

lemma inv_scrape_company:
  assumes "scrape_company env i symbol companyName w = (r, w')" and "run_inv M w"
  shows "run_inv M w'"
proof -
  obtain r1 w1 where b: "scrapeBseReports env (bse_site env i)
           \<lparr>company_symbol = symbol, company_name = companyName\<rparr> w = (r1, w1)"
    by (metis prod.collapse)
  show ?thesis
  proof (cases r1)
    case (Inl err)
    with assms(1) b have "w' = w1" by (simp add: scrape_company_def)
    then show ?thesis using inv_scrapeBseReports [OF b assms(2)] by simp
  next
    case (Inr found)
    have "run_inv (insert (symbol, trying_message symbol companyName) M) w'"
      using inv_scrape_company_found [OF assms b [unfolded Inr]] .
    then show ?thesis by (rule run_inv_mono) auto
  qed
qed

lemma inv_process_company:
  "process_company env i symbol companyName w = (r, w') \<Longrightarrow> run_inv M w \<Longrightarrow> run_inv M w'"
  by (auto simp: process_company_def
           split: sum.splits prod.splits
           dest: inv_scrape_company inv_addError)

lemma inv_process_rows:
  "process_rows env companyKey i rows w = (r, w') \<Longrightarrow> run_inv M w \<Longrightarrow> run_inv M w'"
proof (induction rows arbitrary: i w)
  case Nil
  then show ?case by auto
next
  case (Cons row rows)
  then show ?case
    by (auto simp: Let_def split: sum.splits prod.splits if_splits dest: inv_process_company)
qed

lemma write_report_frame:
  "surfaced (write_report env w) = surfaced w"
  "requests (write_report env w) = requests w"
  "companyErrors (write_report env w) = companyErrors w"
  "normalizer_raised (write_report env w) = normalizer_raised w"
  by (simp_all add: write_report_def console_log_def Let_def split: option.splits)

lemma main_fetches:
  "\<exists>w1. run_inv {} w1
        \<and> surfaced (snd (main env data (initial_world fs))) = surfaced w1
        \<and> requests (snd (main env data (initial_world fs))) = requests w1
        \<and> normalizer_raised (snd (main env data (initial_world fs))) = normalizer_raised w1"
proof -
  have init: "run_inv {} (initial_world fs)"
    by (simp add: run_inv_def initial_world_def)
  obtain r w1 where p: "process_rows env (companyKey_found data) 0 (sheet_rows data)
                          (initial_world fs) = (r, w1)"
    by (metis prod.collapse)
  have w1: "run_inv {} w1"
    using inv_process_rows [OF p init] .
  show ?thesis
  proof (cases "length (sheet_rows data) = 0 \<or> \<not> symbolKey_found data")
    case True
    then have "surfaced (snd (main env data (initial_world fs))) = surfaced (initial_world fs)
             \<and> requests (snd (main env data (initial_world fs))) = requests (initial_world fs)
             \<and> normalizer_raised (snd (main env data (initial_world fs)))
                 = normalizer_raised (initial_world fs)"
      by (auto simp: main_def console_log_def)
    with init show ?thesis by blast
  next
    case False
    then have "surfaced (snd (main env data (initial_world fs))) = surfaced w1
             \<and> requests (snd (main env data (initial_world fs))) = requests w1
             \<and> normalizer_raised (snd (main env data (initial_world fs))) = normalizer_raised w1"
      by (cases r) (auto simp: main_def p console_log_def write_report_frame)
    with w1 show ?thesis by blast
  qed
qed

text \<open>
  C2. In every run, from a fresh state, every reference passed to the fetcher
  by either source has a year that \<^verbatim>\<open>parseInt\<close> reads as a number, and that
  number is at least 2009: a row whose year is not numeric or is below 2009
  is dropped before any download is attempted. The recorded calls are all the
  calls: there is one per request made.
\<close>

theorem fetcher_years_from_2009:
  "(\<forall>r \<in> set (surfaced (snd (main env data (initial_world fs)))).
      \<exists>n. parseInt10 (ref_year r) = Some n \<and> 2009 \<le> n)
   \<and> length (surfaced (snd (main env data (initial_world fs))))
       = requests (snd (main env data (initial_world fs)))"
proof -
  obtain w1 where "run_inv {} w1"
    and "surfaced (snd (main env data (initial_world fs))) = surfaced w1"
    and "requests (snd (main env data (initial_world fs))) = requests w1"
    using main_fetches [of env data fs] by blast
  then show ?thesis
    by (auto simp: run_inv_def list_all_iff year_from_2009_def split: option.splits)
qed

text \<open>
  A run on which the theorem says something: the primary table has a row of
  2008-09, which is skipped, and a row of 2012-13, which reaches the fetcher.
\<close>

theorem fetcher_years_from_2009_witness:
  "surfaced (snd (main bse_env (sheet_of [''ACME'']) (initial_world Map.empty)))
     = [\<lparr>ref_year = js ''2012-13'', ref_url = js ''https://x.test/2012.pdf'',
         ref_dest = js ''/app/BSE_AnnualReports/ACME/ACME_2012-13.pdf''\<rparr>]
   \<and> parseInt10 (js ''2012-13'') = Some 2012 \<and> (2009::int) \<le> 2012
   \<and> requests (snd (main bse_env (sheet_of [''ACME'']) (initial_world Map.empty))) = 1"
proof -
  have s: "surfaced (snd (main bse_env (sheet_of [''ACME'']) (initial_world Map.empty)))
     = [\<lparr>ref_year = js ''2012-13'', ref_url = js ''https://x.test/2012.pdf'',
         ref_dest = js ''/app/BSE_AnnualReports/ACME/ACME_2012-13.pdf''\<rparr>]"
    by (simp add: run_defs example_defs show_nat_404 string_defs world_defs)
  have p: "parseInt10 (js ''2012-13'') = Some 2012"
    by (simp add: string_defs)
  show ?thesis
    using fetcher_years_from_2009 [of bse_env "sheet_of [''ACME'']" Map.empty] s p
    by simp
qed


text \<open>
  C6. The Archive Normalizer never raises an exception to its caller. In every
  run, whatever the worklist, the sources, the network, the archive library
  and the file system do, no call of \<^verbatim>\<open>extractZipToPdf\<close> raises: its only call is
  line 226, made after line 90 has given the symbol its Ledger entry, and with
  an entry for the symbol the function returns normally for every archive
  path, folder and year. Every failure of its \<^verbatim>\<open>try\<close> block (missing file,
  corrupt archive, extraction or deletion error) is caught and becomes the
  last message of the Ledger entry of the given symbol.
\<close>

theorem extractZipToPdf_never_raises:
  "normalizer_raised (snd (main env data (initial_world fs))) = []
   \<and> (map_of (companyErrors w) symbol \<noteq> None
        \<longrightarrow> fst (extractZipToPdf env z f symbol y w) = Inr ())
   \<and> (\<forall>err w1. extractZipToPdf_try env z f symbol y w = (Inl err, w1)
          \<and> fst (extractZipToPdf env z f symbol y w) = Inr ()
        \<longrightarrow> (\<exists>e. map_of (companyErrors (snd (extractZipToPdf env z f symbol y w))) symbol = Some e
                 \<and> entry_errors e \<noteq> []
                 \<and> last (entry_errors e)
                     = js ''Error extracting ZIP file '' @ z @ js '': '' @ err_text err))"
proof -
  obtain w1 where "run_inv {} w1"
    and "normalizer_raised (snd (main env data (initial_world fs))) = normalizer_raised w1"
    using main_fetches [of env data fs] by blast
  then have "normalizer_raised (snd (main env data (initial_world fs))) = []"
    by (simp add: run_inv_def)
  then show ?thesis
    using extractZipToPdf_entry_ok [of w symbol env z f y]
      extractZipToPdf_failure_recorded [of env z f symbol y w]
    by blast
qed

text \<open>
  Two instances. For the symbol \<^verbatim>\<open>ACME\<close>, which has an entry, and an archive
  that does not exist, the error of \<^verbatim>\<open>statSync\<close> becomes the last message of the
  entry. And a whole run in which the fallback downloads 2000 bytes under the
  name of a zip: the archive library throws inside line 226, nothing is
  raised, and the error is in the Ledger.
\<close>

theorem extractZipToPdf_never_raises_witness:
  "map_of (companyErrors ledger_world) (js ''ACME'') \<noteq> None
   \<and> extractZipToPdf_try zip_env (js ''a.zip'') (js ''d'') (js ''ACME'') (js ''2012'')
        ledger_world = (Inl (enoent (js ''a.zip'')), ledger_world)
   \<and> fst (extractZipToPdf zip_env (js ''a.zip'') (js ''d'') (js ''ACME'') (js ''2012'')
        ledger_world) = Inr ()
   \<and> messages_of (js ''ACME'')
        (snd (extractZipToPdf zip_env (js ''a.zip'') (js ''d'') (js ''ACME'') (js ''2012'')
           ledger_world))
       = [js ''first'', js ''second'',
          js ''Error extracting ZIP file '' @ js ''a.zip'' @ js '': ''
            @ err_text (enoent (js ''a.zip''))]
   \<and> fst (main zip_env (sheet_of [''ACME'']) (initial_world Map.empty)) = Completed
   \<and> normalizer_raised (snd (main zip_env (sheet_of [''ACME'']) (initial_world Map.empty))) = []
   \<and> messages_of (js ''ACME'') (snd (main zip_env (sheet_of [''ACME'']) (initial_world Map.empty)))
       = [js ''Trying BSE reports for  (ACME)'',
          js ''Error extracting ZIP file /app/NSE_AnnualReports/ACME/ACME_2012.zip: Invalid or unsupported zip format'']"
proof -
  let ?x = "extractZipToPdf zip_env (js ''a.zip'') (js ''d'') (js ''ACME'') (js ''2012'')
              ledger_world"
  have k: "map_of (companyErrors ledger_world) (js ''ACME'') \<noteq> None"
    by (simp add: ledger_world_def initial_world_def)
  have t: "extractZipToPdf_try zip_env (js ''a.zip'') (js ''d'') (js ''ACME'') (js ''2012'')
        ledger_world = (Inl (enoent (js ''a.zip'')), ledger_world)"
    by (simp add: extractZipToPdf_try_def statSync_size_def ledger_world_def initial_world_def)
  have m: "messages_of (js ''ACME'') (snd ?x)
       = [js ''first'', js ''second'',
          js ''Error extracting ZIP file '' @ js ''a.zip'' @ js '': ''
            @ err_text (enoent (js ''a.zip''))]"
    by (simp add: extractZipToPdf_def t)
       (simp add: messages_of_def addError_def get_property_def ledger_world_def
          initial_world_def console_log_def)
  have run: "fst (main zip_env (sheet_of [''ACME'']) (initial_world Map.empty)) = Completed
    \<and> messages_of (js ''ACME'') (snd (main zip_env (sheet_of [''ACME'']) (initial_world Map.empty)))
       = [js ''Trying BSE reports for  (ACME)'',
          js ''Error extracting ZIP file /app/NSE_AnnualReports/ACME/ACME_2012.zip: Invalid or unsupported zip format'']"
    by (simp add: run_defs zip_defs example_defs messages_of_def show_nat.simps
          string_defs world_defs)
  note inst = extractZipToPdf_never_raises [of zip_env "sheet_of [''ACME'']" Map.empty
      ledger_world "js ''ACME''" "js ''a.zip''" "js ''d''" "js ''2012''"]
  from inst k have r: "fst ?x = Inr ()" by blast
  from inst have n: "normalizer_raised (snd (main zip_env (sheet_of [''ACME''])
                       (initial_world Map.empty))) = []"
    by blast
  show ?thesis
    using k t r m run n by blast
qed


section \<open>Properties of the orchestrator\<close>

text \<open>
  A symbol that is not the name of a property of \<^verbatim>\<open>Object.prototype\<close> is
  handled as the loop intends: the iteration never throws, what the scrapers
  throw is recorded as the last message of the symbol's entry, and the loop
  goes through the whole worklist.
\<close>

lemma process_company_ordinary:
  assumes "symbol \<notin> set object_prototype_keys"
  shows "fst (process_company env i symbol companyName w) = Inr ()"
  using addError_ok [OF assms]
  by (auto simp: process_company_def split: prod.splits sum.splits)

lemma process_company_records:
  assumes "symbol \<notin> set object_prototype_keys"
    and "scrape_company env i symbol companyName w = (Inl err, w1)"
  shows "\<exists>e. map_of (companyErrors (snd (process_company env i symbol companyName w))) symbol = Some e
             \<and> entry_errors e \<noteq> []
             \<and> last (entry_errors e) = js ''Error processing '' @ symbol @ js '': '' @ err_text err"
  using addError_recorded [OF assms(1)] assms(2)
  by (simp add: process_company_def)

lemma process_rows_ordinary:
  assumes "\<forall>row \<in> set rows. row_symbol_of row \<notin> set object_prototype_keys"
  shows "fst (process_rows env companyKey i rows w) = Inr ()"
  using assms
proof (induction rows arbitrary: i w)
  case Nil
  then show ?case by simp
next
  case (Cons row rows)
  let ?name = "if companyKey then cell_company row else Some []"
  obtain r1 w1 where pc: "process_company env i (row_symbol_of row) ?name w = (r1, w1)"
    by (cases "process_company env i (row_symbol_of row) ?name w")
  have "row_symbol_of row \<notin> set object_prototype_keys"
    using Cons.prems by simp
  then have "r1 = Inr ()"
    using process_company_ordinary [of "row_symbol_of row" env i ?name w] pc by simp
  with pc Cons show ?case
    by (simp add: Let_def)
qed

text \<open>
  C7 fails on the code. The worklist has the rows \<^verbatim>\<open>constructor\<close> and \<^verbatim>\<open>ACME\<close>.
  For the first, \<^verbatim>\<open>addError\<close> throws at line 90, the \<^verbatim>\<open>catch\<close> of line 288 calls
  \<^verbatim>\<open>addError\<close> again, which throws out of the \<^verbatim>\<open>catch\<close>: the promise of \<^verbatim>\<open>main\<close>
  is rejected, nothing is recorded in the Ledger, and \<^verbatim>\<open>ACME\<close> is never
  processed, although alone it is processed to the end.
\<close>

theorem main_aborts_on_one_company:
  "main plain_env (sheet_of [''constructor'', ''ACME'']) (initial_world Map.empty)
     = (Rejected (JsError (js ''TypeError'')
                   (js ''Cannot read properties of undefined (reading push)'')),
        initial_world Map.empty)
   \<and> fst (main plain_env (sheet_of [''ACME'']) (initial_world Map.empty)) = Completed
   \<and> map fst (companyErrors (snd (main plain_env (sheet_of [''ACME''])
                (initial_world Map.empty)))) = [js ''ACME'']"
  by (simp add: run_defs example_defs string_defs world_defs)

text \<open>
  The position of the status message. For such a symbol the primary attempt
  always returns, and the messages of the symbol's entry after the attempt
  are those before it, then the status message, then what the \<^verbatim>\<open>try\<close> block
  and its \<^verbatim>\<open>catch\<close> have appended: the navigation starts in a state that holds
  the message already. The lemmas before it carry ``the messages of the entry
  begin with \<open>base\<close>'' through the \<^verbatim>\<open>try\<close> block.
\<close>

lemma messages_of_console_log [simp]:
  "messages_of key (console_log line w) = messages_of key w"
  by (simp add: messages_of_def console_log_def)

lemma grow_addError:
  assumes "addError symbol name message w = (r, w')"
    and "symbol \<notin> set object_prototype_keys"
    and "\<exists>more. messages_of symbol w = base @ more"
  shows "\<exists>more. messages_of symbol w' = base @ more"
  using addError_messages_of [OF assms(2), of name message w] assms(1,3) by auto

lemma grow_download:
  assumes "downloadFileWithSpeed env url dest (surface year url dest w) = (r, w')"
    and "\<exists>more. messages_of key w = base @ more"
  shows "\<exists>more. messages_of key w' = base @ more"
proof -
  have "companyErrors w' = companyErrors w"
    using assms(1)
    by (auto simp: downloadFileWithSpeed_def createWriteStream_def surface_def Let_def
                   console_log_def
             split: net_outcome.splits if_splits option.splits)
  then show ?thesis using assms(2) by (simp add: messages_of_def)
qed

lemma grow_bse_download_catch:
  assumes "bse_download_catch company filename d err w = (r, w')"
    and "company_symbol company \<notin> set object_prototype_keys"
    and "\<exists>more. messages_of (company_symbol company) w = base @ more"
  shows "\<exists>more. messages_of (company_symbol company) w' = base @ more"
  using assms
  by (auto simp: bse_download_catch_def split: sum.splits prod.splits
           dest!: grow_addError [where base = base])

lemma grow_bse_download:
  assumes "bse_download env company year url filename filepath d w = (r, w')"
    and "company_symbol company \<notin> set object_prototype_keys"
    and "\<exists>more. messages_of (company_symbol company) w = base @ more"
  shows "\<exists>more. messages_of (company_symbol company) w' = base @ more"
proof -
  obtain r1 w1 where a: "addError (company_symbol company) (company_name company)
             (js ''Downloading BSE report: '' @ filename @ js ''...'') w = (r1, w1)"
    by (metis prod.collapse)
  have w1: "\<exists>more. messages_of (company_symbol company) w1 = base @ more"
    using grow_addError [OF a assms(2,3)] .
  show ?thesis
  proof (cases r1)
    case (Inl err)
    with assms(1) a have "bse_download_catch company filename d err w1 = (r, w')"
      by (simp add: bse_download_def)
    from grow_bse_download_catch [OF this assms(2) w1] show ?thesis .
  next
    case (Inr u)
    obtain r2 w2 where dl: "downloadFileWithSpeed env url filepath
                              (surface year url filepath w1) = (r2, w2)"
      by (metis prod.collapse)
    have w2: "\<exists>more. messages_of (company_symbol company) w2 = base @ more"
      using grow_download [OF dl w1] .
    show ?thesis
    proof (cases r2)
      case (Inl err)
      with assms(1) a Inr dl have "bse_download_catch company filename d err w2 = (r, w')"
        by (simp add: bse_download_def)
      from grow_bse_download_catch [OF this assms(2) w2] show ?thesis .
    next
      case (Inr v)
      with assms(1) a \<open>r1 = Inr u\<close> dl w2 show ?thesis
        by (simp add: bse_download_def)
    qed
  qed
qed

lemma grow_bse_row:
  assumes "bse_row env company folder row d w = (r, w')"
    and "company_symbol company \<notin> set object_prototype_keys"
    and "\<exists>more. messages_of (company_symbol company) w = base @ more"
  shows "\<exists>more. messages_of (company_symbol company) w' = base @ more"
  using assms
  by (auto simp: bse_row_def Let_def split: sum.splits if_splits option.splits
           dest!: grow_bse_download [where base = base])

lemma grow_bse_rows:
  assumes "bse_rows env company folder rows d w = (r, w')"
    and "company_symbol company \<notin> set object_prototype_keys"
    and "\<exists>more. messages_of (company_symbol company) w = base @ more"
  shows "\<exists>more. messages_of (company_symbol company) w' = base @ more"
  using assms
proof (induction rows arbitrary: d w)
  case Nil
  then show ?case by auto
next
  case (Cons row rows)
  obtain r1 w1 where b: "bse_row env company folder row d w = (r1, w1)"
    by (metis prod.collapse)
  have w1: "\<exists>more. messages_of (company_symbol company) w1 = base @ more"
    using grow_bse_row [OF b Cons.prems(2,3)] .
  show ?case
  proof (cases r1)
    case (Inl err)
    with Cons.prems(1) b w1 show ?thesis by simp
  next
    case (Inr d1)
    with Cons.prems(1) b have "bse_rows env company folder rows d1 w1 = (r, w')" by simp
    from Cons.IH [OF this Cons.prems(2) w1] show ?thesis .
  qed
qed

lemma grow_extractAndDownloadReports:
  assumes "extractAndDownloadReports env company folder table d w = (r, w')"
    and "company_symbol company \<notin> set object_prototype_keys"
    and "\<exists>more. messages_of (company_symbol company) w = base @ more"
  shows "\<exists>more. messages_of (company_symbol company) w' = base @ more"
  using assms
  by (auto simp: extractAndDownloadReports_def split: sum.splits
           dest!: grow_bse_rows [where base = base])

lemma grow_scrapeBseReports_try:
  assumes "scrapeBseReports_try env session company w = (r, w')"
    and "company_symbol company \<notin> set object_prototype_keys"
    and "\<exists>more. messages_of (company_symbol company) w = base @ more"
  shows "\<exists>more. messages_of (company_symbol company) w' = base @ more"
proof (cases "bse_landing session")
  case (Some err)
  with assms show ?thesis by (simp add: scrapeBseReports_try_def)
next
  case None
  let ?folder = "path_join env (path_join env (dirname env) (js ''BSE_AnnualReports''))
                   (company_symbol company)"
  obtain r1 w1 where p1: "extractAndDownloadReports env company ?folder (bse_rows1 session)
                            False w = (r1, w1)"
    by (metis prod.collapse)
  have w1: "\<exists>more. messages_of (company_symbol company) w1 = base @ more"
    using grow_extractAndDownloadReports [OF p1 assms(2,3)] .
  show ?thesis
  proof (cases r1)
    case (Inl err)
    with assms(1) None p1 w1 show ?thesis by (simp add: scrapeBseReports_try_def Let_def)
  next
    case (Inr d1)
    show ?thesis
    proof (cases "bse_next session = Inr True \<and> bse_landing2 session = None")
      case True
      with assms(1) None p1 Inr
      have "extractAndDownloadReports env company ?folder (bse_rows2 session) d1 w1 = (r, w')"
        by (simp add: scrapeBseReports_try_def Let_def)
      from grow_extractAndDownloadReports [OF this assms(2) w1] show ?thesis .
    next
      case False
      with assms(1) None p1 Inr have "w' = w1"
        by (auto simp: scrapeBseReports_try_def Let_def split: sum.splits option.splits if_splits)
      with w1 show ?thesis by simp
    qed
  qed
qed

lemma scrapeBseReports_status_first:
  assumes "company_symbol company \<notin> set object_prototype_keys"
  shows "\<exists>found rest.
           fst (scrapeBseReports env session company w) = Inr found
         \<and> messages_of (company_symbol company) (snd (scrapeBseReports env session company w))
             = messages_of (company_symbol company) w
               @ trying_message (company_symbol company) (company_name company) # rest
         \<and> (\<forall>err. bse_landing session = Some err
               \<longrightarrow> rest = [failed_message (company_symbol company) err])"
proof -
  let ?s = "company_symbol company"
  let ?t = "trying_message ?s (company_name company)"
  let ?base = "messages_of ?s w @ [?t]"
  obtain r1 w1 where a: "addError ?s (company_name company) ?t w = (r1, w1)"
    by (metis prod.collapse)
  have r1: "r1 = Inr ()"
    using addError_ok [OF assms, of "company_name company" ?t w] a by simp
  have m1: "messages_of ?s w1 = ?base"
    using addError_messages_of [OF assms, of "company_name company" ?t w] a by simp
  obtain r2 w2 where t: "scrapeBseReports_try env session company w1 = (r2, w2)"
    by (metis prod.collapse)
  show ?thesis
  proof (cases r2)
    case (Inr found)
    have "\<exists>more. messages_of ?s w2 = ?base @ more"
      using grow_scrapeBseReports_try [OF t assms, of ?base] m1 by simp
    then obtain more where m2: "messages_of ?s w2 = ?base @ more" ..
    have res: "scrapeBseReports env session company w = (Inr found, w2)"
      using a r1 t Inr by (simp add: scrapeBseReports_def trying_message_def)
    have "bse_landing session = None"
      using t Inr by (cases "bse_landing session") (simp_all add: scrapeBseReports_try_def)
    with res m2 show ?thesis by auto
  next
    case (Inl err)
    let ?f = "failed_message ?s err"
    obtain r3 w3 where c: "addError ?s (company_name company) ?f w2 = (r3, w3)"
      by (metis prod.collapse)
    have r3: "r3 = Inr ()"
      using addError_ok [OF assms, of "company_name company" ?f w2] c by simp
    have m3: "messages_of ?s w3 = messages_of ?s w2 @ [?f]"
      using addError_messages_of [OF assms, of "company_name company" ?f w2] c by simp
    have "\<exists>more. messages_of ?s w2 = ?base @ more"
      using grow_scrapeBseReports_try [OF t assms, of ?base] m1 by simp
    then obtain more where m2: "messages_of ?s w2 = ?base @ more" ..
    have res: "scrapeBseReports env session company w = (Inr False, w3)"
      using a r1 t Inl c r3
      by (simp add: scrapeBseReports_def trying_message_def failed_message_def)
    have early: "more = [] \<and> err = e" if "bse_landing session = Some e" for e
    proof -
      from that t have "r2 = Inl e \<and> w2 = w1" by (simp add: scrapeBseReports_try_def)
      with Inl m1 m2 show ?thesis by simp
    qed
    have "messages_of ?s w3 = messages_of ?s w @ ?t # (more @ [?f])"
      using m2 m3 by simp
    moreover have "\<forall>e. bse_landing session = Some e \<longrightarrow> more @ [?f] = [failed_message ?s e]"
      using early by auto
    ultimately show ?thesis using res by (metis fst_conv snd_conv)
  qed
qed

text \<open>For such a symbol the status message of line 90 stays in the Ledger to
  the end of the run.\<close>

lemma scrapeBseReports_ordinary:
  assumes "company_symbol company \<notin> set object_prototype_keys"
  shows "\<exists>found. fst (scrapeBseReports env session company w) = Inr found"
  using scrapeBseReports_status_first [OF assms, of env session w] by blast

lemma inv_key_scrape_company:
  assumes "symbol \<notin> set object_prototype_keys" and "run_inv M w"
    and "scrape_company env i symbol companyName w = (r, w')"
  shows "run_inv (insert (symbol, trying_message symbol companyName) M) w'"
proof -
  let ?c = "\<lparr>company_symbol = symbol, company_name = companyName\<rparr>"
  obtain found where "fst (scrapeBseReports env (bse_site env i) ?c w) = Inr found"
    using scrapeBseReports_ordinary [of ?c env "bse_site env i" w] assms(1) by auto
  then obtain w1 where "scrapeBseReports env (bse_site env i) ?c w = (Inr found, w1)"
    by (metis prod.collapse)
  from inv_scrape_company_found [OF assms(3,2) this] show ?thesis .
qed

lemma inv_key_process_company:
  assumes "symbol \<notin> set object_prototype_keys" and "run_inv M w"
    and "process_company env i symbol companyName w = (r, w')"
  shows "run_inv (insert (symbol, trying_message symbol companyName) M) w'"
proof -
  obtain r1 w1 where sc: "scrape_company env i symbol companyName w = (r1, w1)"
    by (cases "scrape_company env i symbol companyName w")
  have w1: "run_inv (insert (symbol, trying_message symbol companyName) M) w1"
    using inv_key_scrape_company [OF assms(1,2) sc] .
  show ?thesis
  proof (cases r1)
    case (Inl err)
    with sc assms(3) have "addError symbol companyName
        (js ''Error processing '' @ symbol @ js '': '' @ err_text err) w1 = (r, w')"
      by (simp add: process_company_def)
    then show ?thesis using w1 by (rule inv_addError)
  next
    case (Inr u)
    with sc assms(3) w1 show ?thesis by (simp add: process_company_def)
  qed
qed

lemma inv_key_process_rows:
  assumes "\<forall>row \<in> set rows. row_symbol_of row \<notin> set object_prototype_keys"
    and "run_inv M w" and "process_rows env companyKey i rows w = (r, w')"
  shows "run_inv (M \<union> row_status companyKey ` {row \<in> set rows. row_symbol_of row \<noteq> []}) w'"
  using assms
proof (induction rows arbitrary: i w M)
  case Nil
  then show ?case by simp
next
  case (Cons row rows)
  show ?case
  proof (cases "row_symbol_of row = []")
    case True
    with Cons.prems have "process_rows env companyKey (Suc i) rows w = (r, w')" by simp
    from Cons.IH [OF _ Cons.prems(2) this] Cons.prems(1)
    have "run_inv (M \<union> row_status companyKey ` {row \<in> set rows. row_symbol_of row \<noteq> []}) w'"
      by simp
    moreover have "M \<union> row_status companyKey ` {r \<in> set (row # rows). row_symbol_of r \<noteq> []}
                     \<subseteq> M \<union> row_status companyKey ` {row \<in> set rows. row_symbol_of row \<noteq> []}"
      using True by auto
    ultimately show ?thesis by (rule run_inv_mono)
  next
    case False
    let ?name = "if companyKey then cell_company row else Some []"
    obtain r1 w1 where pc: "process_company env i (row_symbol_of row) ?name w = (r1, w1)"
      by (cases "process_company env i (row_symbol_of row) ?name w")
    have ord: "row_symbol_of row \<notin> set object_prototype_keys"
      using Cons.prems(1) by simp
    have "r1 = Inr ()"
      using process_company_ordinary [OF ord, of env i ?name w] pc by simp
    with pc False Cons.prems(3)
    have rest: "process_rows env companyKey (Suc i) rows w1 = (r, w')"
      by (simp add: Let_def)
    have "run_inv (insert (row_status companyKey row) M) w1"
      using inv_key_process_company [OF ord Cons.prems(2) pc] by (simp add: row_status_def)
    from Cons.IH [OF _ this rest] Cons.prems(1)
    have "run_inv (insert (row_status companyKey row) M
                     \<union> row_status companyKey ` {row \<in> set rows. row_symbol_of row \<noteq> []}) w'"
      by simp
    moreover have "M \<union> row_status companyKey ` {r \<in> set (row # rows). row_symbol_of r \<noteq> []}
                     \<subseteq> insert (row_status companyKey row) M
                         \<union> row_status companyKey ` {row \<in> set rows. row_symbol_of row \<noteq> []}"
      by auto
    ultimately show ?thesis by (rule run_inv_mono)
  qed
qed

lemma set_object_entries: "set (object_entries obj) = set obj"
  by (auto simp: object_entries_def)

lemma length_object_entries: "length (object_entries obj) = length obj"
proof -
  have "length (filter (\<lambda>(k, v). array_index k \<noteq> None) obj)
          + length (filter (\<lambda>(k, v). array_index k = None) obj) = length obj"
    by (induction obj) auto
  then show ?thesis by (simp add: object_entries_def)
qed

lemma main_status_recorded:
  assumes "symbolKey_found data"
    and "\<forall>r \<in> set (sheet_rows data). row_symbol_of r \<notin> set object_prototype_keys"
    and "row \<in> set (sheet_rows data)" and "row_symbol_of row \<noteq> []"
  shows "\<exists>w1 e.
           main env data (initial_world fs)
             = (Completed, console_log (js ''All done!'') (write_report env w1))
         \<and> map_of (companyErrors w1) (row_symbol_of row) = Some e
         \<and> js ''Trying BSE reports for ''
              @ show_name (if companyKey_found data then cell_company row else Some [])
              @ js '' ('' @ row_symbol_of row @ js '')'' \<in> set (entry_errors e)
         \<and> companyErrors w1 \<noteq> []
         \<and> write_report env w1
              \<noteq> console_log (js ''All companies have reports on BSE or NSE.'') w1
         \<and> (xlsx_fault env = None \<longrightarrow>
               (\<exists>rows. report (write_report env w1) = Some rows
                    \<and> row_symbol_of row \<in> row_symbol ` set rows))"
proof -
  let ?p = "process_rows env (companyKey_found data) 0 (sheet_rows data) (initial_world fs)"
  let ?m = "js ''Trying BSE reports for ''
              @ show_name (if companyKey_found data then cell_company row else Some [])
              @ js '' ('' @ row_symbol_of row @ js '')''"
  have "fst ?p = Inr ()"
    using process_rows_ordinary [OF assms(2)] .
  then obtain w1 where p: "?p = (Inr (), w1)" by (cases ?p) auto
  have ne: "sheet_rows data \<noteq> []" using assms(3) by auto
  have m: "main env data (initial_world fs)
             = (Completed, console_log (js ''All done!'') (write_report env w1))"
    using assms(1) ne by (simp add: main_def p)
  have "run_inv {} (initial_world fs)"
    by (simp add: run_inv_def initial_world_def)
  from inv_key_process_rows [OF assms(2) this p]
  have inv: "run_inv (row_status (companyKey_found data)
                        ` {r \<in> set (sheet_rows data). row_symbol_of r \<noteq> []}) w1"
    by simp
  have "row_status (companyKey_found data) row
          \<in> row_status (companyKey_found data) ` {r \<in> set (sheet_rows data). row_symbol_of r \<noteq> []}"
    using assms(3,4) by blast
  with inv have "has_message (row_symbol_of row) ?m w1"
    by (auto simp: run_inv_def row_status_def trying_message_def)
  then obtain e where e: "map_of (companyErrors w1) (row_symbol_of row) = Some e"
    and me: "?m \<in> set (entry_errors e)"
    by (auto simp: has_message_def split: option.splits)
  from e have key: "(row_symbol_of row, e) \<in> set (companyErrors w1)"
    by (rule map_of_SomeD)
  then have led: "companyErrors w1 \<noteq> []" by auto
  have rep: "report w1 = None" using inv by (simp add: run_inv_def)
  have branch: "write_report env w1
                  \<noteq> console_log (js ''All companies have reports on BSE or NSE.'') w1"
  proof (cases "xlsx_fault env")
    case None
    then have "report (write_report env w1) \<noteq> None"
      using led by (simp add: write_report_def length_object_entries console_log_def Let_def)
    moreover have "report (console_log (js ''All companies have reports on BSE or NSE.'') w1)
                     = None"
      using rep by (simp add: console_log_def)
    ultimately show ?thesis by metis
  next
    case (Some err)
    have "hd (js ''Failed writing not found companies Excel: '' @ err_text err)
            \<noteq> hd (js ''All companies have reports on BSE or NSE.'')"
      by (simp add: js_def)
    then have "last (console (write_report env w1))
                 \<noteq> last (console (console_log
                      (js ''All companies have reports on BSE or NSE.'') w1))"
      using Some led
      by (auto simp: write_report_def length_object_entries console_log_def)
    then show ?thesis by metis
  qed
  have rows: "\<exists>rows. report (write_report env w1) = Some rows
              \<and> row_symbol_of row \<in> row_symbol ` set rows" if "xlsx_fault env = None"
  proof -
    have "report (write_report env w1)
            = Some (map report_row_of (object_entries (companyErrors w1)))"
      using that led
      by (simp add: write_report_def length_object_entries console_log_def Let_def)
    moreover have "row_symbol (report_row_of (row_symbol_of row, e)) = row_symbol_of row"
      by (simp add: report_row_of_def)
    then have "row_symbol_of row
                 \<in> row_symbol ` set (map report_row_of (object_entries (companyErrors w1)))"
      using key by (force simp: set_object_entries)
    ultimately show ?thesis by blast
  qed
  show ?thesis
    by (rule exI [of _ w1], rule exI [of _ e]) (use m e me led branch rows in simp)
qed

text \<open>
  C3, as stated, fails in two ways. With the symbol \<^verbatim>\<open>toString\<close>, \<^verbatim>\<open>addError\<close>
  throws at line 90 and again in the \<^verbatim>\<open>catch\<close> of line 288: the run is rejected
  with an empty Ledger and no report. With the symbol \<^verbatim>\<open>ACME\<close> and a workbook
  that cannot be written, the run completes and the company is in no report.
\<close>

theorem status_message_not_always_reported:
  "main plain_env (sheet_of [''toString'']) (initial_world Map.empty)
     = (Rejected (JsError (js ''TypeError'')
                   (js ''Cannot read properties of undefined (reading push)'')),
        initial_world Map.empty)
   \<and> fst (main xlsx_fault_env (sheet_of [''ACME'']) (initial_world Map.empty)) = Completed
   \<and> report (snd (main xlsx_fault_env (sheet_of [''ACME'']) (initial_world Map.empty))) = None"
  by (simp add: run_defs example_defs string_defs world_defs)

text \<open>
  C3, amended. When no symbol of the worklist is the name of a property
  inherited from \<^verbatim>\<open>Object.prototype\<close>, then for every row with a non-empty
  symbol, whatever the two sources and the network do: the run reaches its
  end; the Ledger handed to the report holds an entry for the symbol with the
  status message of line 90, so it is not empty; the branch that prints the
  success message is not taken; and when writing the workbook does not throw,
  the failure report has a row for the symbol. The status message is appended
  before any navigation occurs: for every such symbol, session and state, the
  primary attempt returns, and the messages of the symbol's entry after it
  are the messages before it, then the status message, then everything the
  attempt recorded while navigating and downloading; when the first
  navigation step throws, that is the message of the \<^verbatim>\<open>catch\<close> of line 161
  alone.
\<close>

theorem status_message_always_recorded:
  assumes "symbolKey_found data"
    and "\<forall>r \<in> set (sheet_rows data). row_symbol_of r \<notin> set object_prototype_keys"
    and "row \<in> set (sheet_rows data)" and "row_symbol_of row \<noteq> []"
  shows "(\<exists>w1 e.
           main env data (initial_world fs)
             = (Completed, console_log (js ''All done!'') (write_report env w1))
         \<and> map_of (companyErrors w1) (row_symbol_of row) = Some e
         \<and> js ''Trying BSE reports for ''
              @ show_name (if companyKey_found data then cell_company row else Some [])
              @ js '' ('' @ row_symbol_of row @ js '')'' \<in> set (entry_errors e)
         \<and> companyErrors w1 \<noteq> []
         \<and> write_report env w1
              \<noteq> console_log (js ''All companies have reports on BSE or NSE.'') w1
         \<and> (xlsx_fault env = None \<longrightarrow>
               (\<exists>rows. report (write_report env w1) = Some rows
                    \<and> row_symbol_of row \<in> row_symbol ` set rows)))
       \<and> (\<forall>session company w.
            company_symbol company \<notin> set object_prototype_keys \<longrightarrow>
            (\<exists>found rest.
               fst (scrapeBseReports env session company w) = Inr found
             \<and> messages_of (company_symbol company)
                 (snd (scrapeBseReports env session company w))
                 = messages_of (company_symbol company) w
                   @ (js ''Trying BSE reports for '' @ show_name (company_name company)
                        @ js '' ('' @ company_symbol company @ js '')'') # rest
             \<and> (\<forall>err. bse_landing session = Some err \<longrightarrow>
                   rest = [js ''BSE scraping failed for '' @ company_symbol company
                             @ js '': '' @ err_text err])))"
  using main_status_recorded [OF assms, of env fs]
    scrapeBseReports_status_first [of _ env]
  unfolding trying_message_def failed_message_def
  by blast

text \<open>
  The theorem on a worklist of two companies: \<^verbatim>\<open>ACME\<close> is Satisfied by the
  primary source and \<^verbatim>\<open>ZETA\<close> by neither source, and both are rows of the
  failure report. And on a primary source that cannot be reached: the status
  message comes first, the message of the \<^verbatim>\<open>catch\<close> second.
\<close>

theorem status_message_always_recorded_witness:
  "symbolKey_found (sheet_of [''ACME'', ''ZETA''])
   \<and> map row_symbol_of (sheet_rows (sheet_of [''ACME'', ''ZETA''])) = [js ''ACME'', js ''ZETA'']
   \<and> js ''ACME'' \<notin> set object_prototype_keys \<and> js ''ZETA'' \<notin> set object_prototype_keys
   \<and> xlsx_fault two_env = None
   \<and> fst (main two_env (sheet_of [''ACME'', ''ZETA'']) (initial_world Map.empty)) = Completed
   \<and> map (\<lambda>kv. (fst kv, entry_errors (snd kv)))
        (companyErrors (snd (main two_env (sheet_of [''ACME'', ''ZETA''])
           (initial_world Map.empty))))
       = [(js ''ACME'', [js ''Trying BSE reports for  (ACME)'',
                         js ''Downloading BSE report: ACME_2012-13.pdf...'']),
          (js ''ZETA'', [js ''Trying BSE reports for  (ZETA)'',
                         js ''No reports found on BSE or NSE for ZETA''])]
   \<and> map row_symbol (the (report (snd (main two_env (sheet_of [''ACME'', ''ZETA''])
        (initial_world Map.empty))))) = [js ''ACME'', js ''ZETA'']
   \<and> bse_landing bse_unreachable
       = Some (JsError (js ''TimeoutError'') (js ''Navigation timeout exceeded''))
   \<and> fst (scrapeBseReports two_env bse_unreachable
            \<lparr>company_symbol = js ''ACME'', company_name = None\<rparr> ledger_world) = Inr False
   \<and> messages_of (js ''ACME'') (snd (scrapeBseReports two_env bse_unreachable
            \<lparr>company_symbol = js ''ACME'', company_name = None\<rparr> ledger_world))
       = [js ''first'', js ''second'', js ''Trying BSE reports for undefined (ACME)'',
          js ''BSE scraping failed for ACME: Navigation timeout exceeded'']"
proof -
  let ?data = "sheet_of [''ACME'', ''ZETA'']"
  let ?acme = "\<lparr>cell_symbol = Some (js ''ACME''), cell_company = None\<rparr>"
  let ?zeta = "\<lparr>cell_symbol = Some (js ''ZETA''), cell_company = None\<rparr>"
  let ?co = "\<lparr>company_symbol = js ''ACME'', company_name = None\<rparr>"
  have k: "symbolKey_found ?data" by (simp add: sheet_of_def)
  have rows: "sheet_rows ?data = [?acme, ?zeta]" by (simp add: sheet_of_def)
  have s: "row_symbol_of ?acme = js ''ACME''" "row_symbol_of ?zeta = js ''ZETA''"
    by (simp_all add: row_symbol_of_def string_defs)
  have syms: "map row_symbol_of (sheet_rows ?data) = [js ''ACME'', js ''ZETA'']"
    by (simp add: rows s)
  have ord: "\<forall>r \<in> set (sheet_rows ?data). row_symbol_of r \<notin> set object_prototype_keys"
    using ACME_ordinary ZETA_ordinary by (simp add: rows s)
  have mem: "?acme \<in> set (sheet_rows ?data)" by (simp add: rows)
  have ne: "row_symbol_of ?acme \<noteq> []" unfolding s by (simp add: js_def)
  have x: "xlsx_fault two_env = None" by (simp add: two_env_def ok_env_def plain_env_def)
  have ev: "fst (main two_env ?data (initial_world Map.empty)) = Completed
    \<and> map (\<lambda>kv. (fst kv, entry_errors (snd kv)))
        (companyErrors (snd (main two_env ?data (initial_world Map.empty))))
       = [(js ''ACME'', [js ''Trying BSE reports for  (ACME)'',
                         js ''Downloading BSE report: ACME_2012-13.pdf...'']),
          (js ''ZETA'', [js ''Trying BSE reports for  (ZETA)'',
                         js ''No reports found on BSE or NSE for ZETA''])]
    \<and> map row_symbol (the (report (snd (main two_env ?data (initial_world Map.empty)))))
       = [js ''ACME'', js ''ZETA'']"
    by (simp add: run_defs example_defs show_nat.simps string_defs world_defs)
  have l: "bse_landing bse_unreachable
             = Some (JsError (js ''TimeoutError'') (js ''Navigation timeout exceeded''))"
    by (simp add: bse_unreachable_def)
  have co: "company_symbol ?co = js ''ACME''" by simp
  have f: "fst (scrapeBseReports two_env bse_unreachable ?co ledger_world) = Inr False
    \<and> messages_of (js ''ACME'') (snd (scrapeBseReports two_env bse_unreachable ?co ledger_world))
       = [js ''first'', js ''second'', js ''Trying BSE reports for undefined (ACME)'',
          js ''BSE scraping failed for ACME: Navigation timeout exceeded'']"
    by (simp add: run_defs example_defs messages_of_def string_defs world_defs)
  show ?thesis
    using status_message_always_recorded [OF k ord mem ne, of two_env Map.empty]
      k syms ACME_ordinary ZETA_ordinary x ev l f
    by blast
qed

text \<open>
  C8, as stated, fails: with a Ledger that is not empty and a workbook that
  cannot be written, the \<^verbatim>\<open>catch\<close> of line 305 prints the error and no report
  file is produced.
\<close>

theorem write_report_fault_no_file:
  "report ledger_world = None \<and> companyErrors ledger_world \<noteq> []
   \<and> report (write_report xlsx_fault_env ledger_world) = None"
  by (simp add: write_report_def length_object_entries console_log_def
        ledger_world_def initial_world_def xlsx_fault_env_def plain_env_def)

lemma write_report_branches:
  assumes "report w = None"
  shows "(report (write_report env w) \<noteq> None \<longleftrightarrow> companyErrors w \<noteq> [] \<and> xlsx_fault env = None)
       \<and> (companyErrors w \<noteq> [] \<and> xlsx_fault env = None \<longrightarrow>
            report (write_report env w)
              = Some (map report_row_of (object_entries (companyErrors w))))
       \<and> (companyErrors w = [] \<longrightarrow>
            write_report env w
              = console_log (js ''All companies have reports on BSE or NSE.'') w)"
  using assms
  by (auto simp: write_report_def length_object_entries console_log_def Let_def
           split: option.splits)

text \<open>
  C8, amended. At the end of every run whose loop completes (the worklist is
  not empty, has a symbol column, and no exception leaves the loop), the
  failure report is written exactly when the Ledger is not empty and building
  and writing the workbook does not throw; it then has one row per Ledger
  entry. When the Ledger is empty, the success message is printed and no
  report is produced.
\<close>

theorem failure_report_written:
  assumes "main env data (initial_world fs) = (Completed, w')"
  shows "(report w' \<noteq> None \<longleftrightarrow> companyErrors w' \<noteq> [] \<and> xlsx_fault env = None)
       \<and> (companyErrors w' \<noteq> [] \<and> xlsx_fault env = None \<longrightarrow>
            report w' = Some (map report_row_of (object_entries (companyErrors w'))))
       \<and> (companyErrors w' = [] \<longrightarrow>
            report w' = None
            \<and> js ''All companies have reports on BSE or NSE.'' \<in> set (console w'))"
proof -
  let ?p = "process_rows env (companyKey_found data) 0 (sheet_rows data) (initial_world fs)"
  obtain r w1 where p: "?p = (r, w1)" by (metis prod.collapse)
  have w': "w' = console_log (js ''All done!'') (write_report env w1)"
    using assms p
    by (cases r) (auto simp: main_def split: if_splits)
  have "run_inv {} (initial_world fs)"
    by (simp add: run_inv_def initial_world_def)
  from inv_process_rows [OF p this] have rep: "report w1 = None"
    by (simp add: run_inv_def)
  have led: "companyErrors w' = companyErrors w1"
    by (simp add: w' console_log_def write_report_frame)
  have r': "report w' = report (write_report env w1)"
    by (simp add: w' console_log_def)
  have "js ''All companies have reports on BSE or NSE.'' \<in> set (console w')"
    if "companyErrors w1 = []"
    using write_report_branches [OF rep, of env] that
    by (simp add: w' console_log_def)
  then show ?thesis
    using write_report_branches [OF rep, of env] by (auto simp: led r')
qed

text \<open>
  Both branches. With the single row \<^verbatim>\<open>ZETA\<close>, which the primary source
  satisfies, the Ledger still has an entry and the report has its row. With a
  single row whose symbol is blank, the row is skipped, the Ledger is empty,
  and the run prints the success message and writes no report.
\<close>

theorem failure_report_written_witness:
  "fst (main two_env (sheet_of [''ZETA'']) (initial_world Map.empty)) = Completed
   \<and> map fst (companyErrors (snd (main two_env (sheet_of [''ZETA''])
        (initial_world Map.empty)))) = [js ''ZETA'']
   \<and> xlsx_fault two_env = None
   \<and> map row_symbol (the (report (snd (main two_env (sheet_of [''ZETA''])
        (initial_world Map.empty))))) = [js ''ZETA'']
   \<and> fst (main two_env (sheet_of [''  '']) (initial_world Map.empty)) = Completed
   \<and> companyErrors (snd (main two_env (sheet_of [''  '']) (initial_world Map.empty))) = []
   \<and> report (snd (main two_env (sheet_of [''  '']) (initial_world Map.empty))) = None
   \<and> console (snd (main two_env (sheet_of [''  '']) (initial_world Map.empty)))
       = [js ''All companies have reports on BSE or NSE.'', js ''All done!'']"
proof -
  let ?a = "main two_env (sheet_of [''ZETA'']) (initial_world Map.empty)"
  let ?b = "main two_env (sheet_of [''  '']) (initial_world Map.empty)"
  have a: "fst ?a = Completed \<and> map fst (companyErrors (snd ?a)) = [js ''ZETA'']
           \<and> map row_symbol (the (report (snd ?a))) = [js ''ZETA'']"
    by (simp add: run_defs example_defs show_nat.simps string_defs world_defs)
  have b: "fst ?b = Completed \<and> companyErrors (snd ?b) = []
           \<and> console (snd ?b) = [js ''All companies have reports on BSE or NSE.'', js ''All done!'']"
    by (simp add: run_defs example_defs string_defs world_defs)
  have x: "xlsx_fault two_env = None" by (simp add: two_env_def ok_env_def plain_env_def)
  have ha: "?a = (Completed, snd ?a)" using a by (metis prod.collapse)
  have hb: "?b = (Completed, snd ?b)" using b by (metis prod.collapse)
  show ?thesis
    using failure_report_written [OF ha] failure_report_written [OF hb] a b x
    by blast
qed


section \<open>Properties of the fallback source\<close>

text \<open>What the fallback returns: with a page that opens and closes and a
  symbol that has passed line 90, true as soon as one reference is
  discovered, whatever the downloads do.\<close>

lemma nse_download_ordinary:
  assumes "symbol \<notin> set object_prototype_keys"
  shows "fst (nse_download env symbol companyName folder rep w) = Inr ()"
  using addError_ok [OF assms]
  by (auto simp: nse_download_def Let_def split: prod.splits sum.splits)

lemma nse_reports_ordinary:
  assumes "symbol \<notin> set object_prototype_keys"
  shows "fst (nse_reports env symbol companyName folder reps w) = Inr ()"
proof (induction reps arbitrary: w)
  case Nil
  show ?case by simp
next
  case (Cons rep reps)
  obtain r1 w1 where d: "nse_download env symbol companyName folder rep w = (r1, w1)"
    by (metis prod.collapse)
  then have "r1 = Inr ()"
    using nse_download_ordinary [OF assms, of env companyName folder rep w] by simp
  with d Cons show ?case by simp
qed

lemma scrapeNseAnnualReports_found:
  assumes "nse_newPage session = None" and "nse_landing session = None"
    and "nse_table session = Inr rows" and "nse_close session = None"
    and "symbol \<notin> set object_prototype_keys"
    and "List.map_filter nse_report_of rows \<noteq> []"
  shows "fst (scrapeNseAnnualReports env session symbol companyName w) = Inr True"
proof -
  let ?folder = "path_join env (path_join env (dirname env) (js ''NSE_AnnualReports'')) symbol"
  obtain w1 where "nse_reports env symbol companyName ?folder
                     (List.map_filter nse_report_of rows) w = (Inr (), w1)"
    using nse_reports_ordinary [OF assms(5), of env companyName ?folder _ w]
    by (metis prod.collapse)
  then show ?thesis
    using assms
    by (simp add: scrapeNseAnnualReports_def scrapeNseAnnualReports_try_def Let_def)
qed

text \<open>
  C1 fails on the code. The primary source has nothing for \<^verbatim>\<open>ACME\<close>; the
  fallback discovers one reference of 2012, and its download is answered with
  status 404: the error is recorded, the one request made leaves an empty
  file behind and completes none. Every discovered reference has failed to
  download, and \<^verbatim>\<open>scrapeNseAnnualReports\<close> returns true all the same (line 239),
  where \<^verbatim>\<open>scrapeBseReports\<close> returns \<^verbatim>\<open>downloadedAny\<close>; so the orchestrator
  takes the company for Satisfied and does not record that no reports were
  found.
\<close>

theorem scrapeNseAnnualReports_true_without_download:
  "scrapeNseAnnualReports nse_env (nse_site nse_env 0) (js ''ACME'') (Some (js ''Acme Ltd''))
       (initial_world Map.empty)
     = (Inr True,
        \<lparr>companyErrors =
           [(js ''ACME'',
             \<lparr>entry_name = Some (js ''Acme Ltd''),
              entry_errors =
                [js ''Error downloading/extracting NSE report ACME_2012.pdf: Failed to download ''
                   @ [0x27] @ js ''https://x.test/AR_2012.PDF'' @ [0x27] @ js '' (Status 404)'']\<rparr>)],
         console =
           [js ''Downloading NSE report: ACME_2012.pdf...'',
            js ''Error downloading/extracting NSE report ACME_2012.pdf: Failed to download ''
              @ [0x27] @ js ''https://x.test/AR_2012.PDF'' @ [0x27] @ js '' (Status 404)''],
         files = [js ''/app/NSE_AnnualReports/ACME/ACME_2012.pdf'' \<mapsto> []],
         open_streams = [js ''/app/NSE_AnnualReports/ACME/ACME_2012.pdf''],
         requests = 1,
         surfaced = [\<lparr>ref_year = js ''2012'', ref_url = js ''https://x.test/AR_2012.PDF'',
                      ref_dest = js ''/app/NSE_AnnualReports/ACME/ACME_2012.pdf''\<rparr>],
         report = None,
         normalizer_raised = []\<rparr>)
   \<and> fst (scrape_company nse_env 0 (js ''ACME'') (Some (js ''Acme Ltd''))
            (initial_world Map.empty)) = Inr ()
   \<and> messages_of (js ''ACME'')
        (snd (scrape_company nse_env 0 (js ''ACME'') (Some (js ''Acme Ltd''))
           (initial_world Map.empty)))
       = [js ''Trying BSE reports for Acme Ltd (ACME)'',
          js ''Error downloading/extracting NSE report ACME_2012.pdf: Failed to download ''
            @ [0x27] @ js ''https://x.test/AR_2012.PDF'' @ [0x27] @ js '' (Status 404)'']"
  by (simp add: run_defs example_defs messages_of_def show_nat_404 string_defs world_defs)

end
